theory Spec2Isabelle
  imports Complex_Main "HOL-Library.Word"
begin

section \<open>JavaScript values and strings\<close>

text \<open>
  A JavaScript string is a sequence of UTF-16 code units; \<open>length\<close>, \<open>startsWith\<close>,
  the regular expression \<open>/\D/g\<close> and \<open>encodeURIComponent\<close> all work on code units.
  The literals of \<open>src/index.js\<close> are ASCII but for one arrow (U+2192) in the two
  tag literals of the \<open>/call-status\<close> handler.
\<close>

type_synonym jschar = "16 word"
type_synonym jsstring = "jschar list"

definition js :: "string \<Rightarrow> jsstring" where
  "js s = map of_char s"

text \<open>
  What a \<open>throw\<close> or a rejected promise carries. The source throws \<open>new Error(...)\<close>;
  the runtime throws \<open>URIError\<close> from \<open>encodeURIComponent\<close> and \<open>TypeError\<close> when
  a value cannot be converted to a string, when a method that is not a function is called
  and when a property of \<open>null\<close> or \<open>undefined\<close> is read (the wording of a runtime
  message depends on the engine and is shortened here); the outside world rejects with
  errors of its own.
\<close>

datatype js_error =
    Error (message: jsstring)
  | TypeError (message: jsstring)
  | URIError (message: jsstring)

text \<open>
  The values a handler meets. A field of \<open>req.query\<close> or \<open>req.body\<close> is \<open>undefined\<close>
  when it is absent; the query string and a URL-encoded body give strings, arrays and
  objects; a JSON body (\<open>express.json()\<close>, line 14) and a parsed response
  (\<open>await response.json()\<close>) give every JSON value: \<open>null\<close>, booleans, numbers,
  strings, arrays and objects. An object is given by its own properties, none of which
  is a function. A number is given by the text \<open>String(n)\<close> produces: the source
  converts numbers to strings and tests them for zero, and does nothing else with them
  (JSON has no \<open>NaN\<close>, the other number that counts as false).
\<close>

datatype jsval =
    Undefined
  | Null
  | Bool bool
  | Num jsstring
  | Str jsstring
  | Arr "jsval list"
  | Obj "string \<Rightarrow> jsval option"

fun truthy :: "jsval \<Rightarrow> bool" where
  "truthy Undefined = False"
| "truthy Null = False"
| "truthy (Bool b) = b"
| "truthy (Num text) = (text \<noteq> js ''0'')"
| "truthy (Str s) = (s \<noteq> [])"
| "truthy (Arr xs) = True"
| "truthy (Obj fields) = True"

text \<open>\<open>a || b\<close>\<close>

definition or_else :: "jsval \<Rightarrow> jsval \<Rightarrow> jsval" where
  "or_else a b = (if truthy a then a else b)"

text \<open>
  String conversion, as a template literal \<open>`${v}`\<close> and \<open>encodeURIComponent(v)\<close> do it.
  An array is joined with commas, \<open>null\<close> and \<open>undefined\<close> elements giving the empty
  string. An object is converted by the \<open>toString\<close> it inherits, unless it has a property
  of its own under that name: that property is not a function, \<open>valueOf\<close> gives no
  primitive either, and the conversion throws.
\<close>

fun ToString :: "jsval \<Rightarrow> js_error + jsstring"
  and join_elements :: "jsval list \<Rightarrow> js_error + jsstring" where
  "ToString Undefined = Inr (js ''undefined'')"
| "ToString Null = Inr (js ''null'')"
| "ToString (Bool b) = Inr (if b then js ''true'' else js ''false'')"
| "ToString (Num text) = Inr text"
| "ToString (Str s) = Inr s"
| "ToString (Arr xs) = join_elements xs"
| "ToString (Obj fields) =
     (if fields ''toString'' = None then Inr (js ''[object Object]'')
      else Inl (TypeError (js ''Cannot convert object to primitive value'')))"
| "join_elements [] = Inr []"
| "join_elements [x] = (if x = Undefined \<or> x = Null then Inr [] else ToString x)"
| "join_elements (x # y # ys) =
     (case (if x = Undefined \<or> x = Null then Inr [] else ToString x) of
        Inl error \<Rightarrow> Inl error
      | Inr first \<Rightarrow>
          (case join_elements (y # ys) of
             Inl error \<Rightarrow> Inl error
           | Inr rest \<Rightarrow> Inr (first @ js '','' @ rest)))"

text \<open>
  The method call \<open>v.toString()\<close>: it throws on \<open>null\<close> and \<open>undefined\<close>, which have
  no properties, and on an object whose own \<open>toString\<close> is not a function.
\<close>

fun toString_method :: "jsval \<Rightarrow> js_error + jsstring" where
  "toString_method Undefined = Inl (TypeError (js ''Cannot read properties of undefined''))"
| "toString_method Null = Inl (TypeError (js ''Cannot read properties of null''))"
| "toString_method (Obj fields) =
     (if fields ''toString'' = None then Inr (js ''[object Object]'')
      else Inl (TypeError (js ''toString is not a function'')))"
| "toString_method (Bool b) = ToString (Bool b)"
| "toString_method (Num text) = ToString (Num text)"
| "toString_method (Str s) = ToString (Str s)"
| "toString_method (Arr xs) = ToString (Arr xs)"

text \<open>
  A template literal converts its substitutions from left to right; the first conversion
  that throws ends it. (The text it builds matters only where it is used, and is written
  out there.)
\<close>

fun interpolate :: "jsval list \<Rightarrow> js_error + jsstring list" where
  "interpolate [] = Inr []"
| "interpolate (v # vs) =
     (case ToString v of
        Inl error \<Rightarrow> Inl error
      | Inr s \<Rightarrow>
          (case interpolate vs of
             Inl error \<Rightarrow> Inl error
           | Inr ss \<Rightarrow> Inr (s # ss)))"

text \<open>\<open>v.k\<close>: reading a property of \<open>null\<close> or \<open>undefined\<close> throws; an absent property
  is \<open>undefined\<close>. (The source reads no property that a string, an array or
  \<open>Object.prototype\<close> provides, but for \<open>length\<close>, which is treated where it is read.)\<close>

fun property :: "jsval \<Rightarrow> string \<Rightarrow> js_error + jsval" where
  "property Undefined k = Inl (TypeError (js ''Cannot read properties of undefined''))"
| "property Null k = Inl (TypeError (js ''Cannot read properties of null''))"
| "property (Obj fields) k = Inr (case fields k of None \<Rightarrow> Undefined | Some v \<Rightarrow> v)"
| "property (Bool b) k = Inr Undefined"
| "property (Num text) k = Inr Undefined"
| "property (Str s) k = Inr Undefined"
| "property (Arr xs) k = Inr Undefined"

definition isDigit :: "jschar \<Rightarrow> bool" where
  "isDigit c = (0x30 \<le> c \<and> c \<le> 0x39)"

text \<open>White space and line terminators of ECMAScript, which \<open>String.prototype.trim\<close> removes.\<close>

definition isWhiteSpace :: "jschar \<Rightarrow> bool" where
  "isWhiteSpace c =
     (c \<in> {0x09, 0x0A, 0x0B, 0x0C, 0x0D, 0x20, 0xA0, 0x1680, 0x2028, 0x2029,
            0x202F, 0x205F, 0x3000, 0xFEFF}
      \<or> (0x2000 \<le> c \<and> c \<le> 0x200A))"

definition trim :: "jsstring \<Rightarrow> jsstring" where
  "trim s = rev (dropWhile isWhiteSpace (rev (dropWhile isWhiteSpace s)))"

text \<open>\<open>s.replace(/\D/g, '')\<close>: every code unit that is not an ASCII digit is removed.\<close>

definition replace_non_digits :: "jsstring \<Rightarrow> jsstring" where
  "replace_non_digits s = filter isDigit s"

definition startsWith :: "jsstring \<Rightarrow> jsstring \<Rightarrow> bool" where
  "startsWith s p = (take (length p) s = p)"

section \<open>Phone number normalisation\<close>

text \<open>
  \<open>formatPhoneNumber\<close> (index.js, lines 73 to 103): the dialable form, or \<open>null\<close>. The
  only statement that can throw is the call \<open>phoneNumber.toString()\<close>.
\<close>

definition formatPhoneNumber :: "jsval \<Rightarrow> js_error + jsval" where
  "formatPhoneNumber phoneNumber =
     (if \<not> truthy phoneNumber then Inr Null
      else
        case toString_method phoneNumber of
          Inl error \<Rightarrow> Inl error
        | Inr text \<Rightarrow>
            let digits = replace_non_digits (trim text) in
            if startsWith digits (js ''63'') then Inr (Str (js ''+'' @ digits))
            else if length digits = 10 then Inr (Str (js ''+1'' @ digits))
            else if length digits \<ge> 11 then
              (if startsWith digits (js ''1'') then Inr (Str (js ''+'' @ digits))
               else if startsWith digits (js ''63'') then Inr (Str (js ''+'' @ digits))
               else Inr Null)
            else Inr Null)"

text \<open>\<open>formatPhoneNumberForTagging\<close> (lines 106 to 111): the digits-only tagging key, or \<open>null\<close>.\<close>

definition formatPhoneNumberForTagging :: "jsval \<Rightarrow> js_error + jsval" where
  "formatPhoneNumberForTagging phoneNumber =
     (if \<not> truthy phoneNumber then Inr Null
      else
        case toString_method phoneNumber of
          Inl error \<Rightarrow> Inl error
        | Inr text \<Rightarrow> Inr (Str (replace_non_digits (trim text))))"

text \<open>
  The algorithm of the specification's section on the phone normaliser, word for word:
  strip the non-digits (a digit is one of the ten ASCII digits, as for \<open>/\D/\<close>), then
  try the four branches in the order given.
\<close>

definition normalize_dialable_spec :: "jsstring \<Rightarrow> jsval" where
  "normalize_dialable_spec raw =
     (let digits = filter isDigit raw in
      if startsWith digits (js ''63'') then Str (js ''+'' @ digits)
      else if length digits = 10 then Str (js ''+1'' @ digits)
      else if length digits \<ge> 11 \<and> startsWith digits (js ''1'') then Str (js ''+'' @ digits)
      else if length digits \<ge> 11 \<and> startsWith digits (js ''63'') then Str (js ''+'' @ digits)
      else Null)"

text \<open>
  The specification's \<open>normalize(normalize(x).taggingKey).taggingKey\<close>: the tagging key
  of the tagging key, an error of the first step being the error of the whole.
\<close>

definition taggingKey_twice :: "jsval \<Rightarrow> js_error + jsval" where
  "taggingKey_twice x =
     (case formatPhoneNumberForTagging x of
        Inl error \<Rightarrow> Inl error
      | Inr key \<Rightarrow> formatPhoneNumberForTagging key)"

section \<open>URI encoding\<close>

text \<open>Decimal digits of a number, as \<open>`${response.status}`\<close> prints an HTTP status.\<close>

fun show_nat :: "nat \<Rightarrow> jsstring" where
  "show_nat n =
     (if n < 10 then [of_nat (48 + n)]
      else show_nat (n div 10) @ [of_nat (48 + n mod 10)])"

declare show_nat.simps [simp del]

text \<open>
  \<open>encodeURIComponent\<close> (ECMAScript \<open>Encode\<close> with the unreserved set of URI components):
  letters, digits and \<open>- _ . ! ~ * ' ( )\<close> stay; any other code point is written as the
  percent-escaped bytes of its UTF-8 form; a surrogate without its partner throws.
\<close>

definition unreserved :: "jschar \<Rightarrow> bool" where
  "unreserved c =
     ((0x41 \<le> c \<and> c \<le> 0x5A) \<or> (0x61 \<le> c \<and> c \<le> 0x7A) \<or> (0x30 \<le> c \<and> c \<le> 0x39)
      \<or> c \<in> {0x2D, 0x5F, 0x2E, 0x21, 0x7E, 0x2A, 0x27, 0x28, 0x29})"

definition hex_digit :: "nat \<Rightarrow> jschar" where
  "hex_digit n = (if n < 10 then of_nat (48 + n) else of_nat (55 + n))"

definition percent :: "nat \<Rightarrow> jsstring" where
  "percent b = [0x25, hex_digit (b div 16), hex_digit (b mod 16)]"

definition utf8 :: "nat \<Rightarrow> nat list" where
  "utf8 cp =
     (if cp < 0x80 then [cp]
      else if cp < 0x800 then [0xC0 + cp div 64, 0x80 + cp mod 64]
      else if cp < 0x10000 then
        [0xE0 + cp div 4096, 0x80 + (cp div 64) mod 64, 0x80 + cp mod 64]
      else
        [0xF0 + cp div 262144, 0x80 + (cp div 4096) mod 64,
         0x80 + (cp div 64) mod 64, 0x80 + cp mod 64])"

definition escape :: "nat \<Rightarrow> jsstring" where
  "escape cp = concat (map percent (utf8 cp))"

definition lead_surrogate :: "jschar \<Rightarrow> bool" where
  "lead_surrogate c = (0xD800 \<le> c \<and> c \<le> 0xDBFF)"

definition trail_surrogate :: "jschar \<Rightarrow> bool" where
  "trail_surrogate c = (0xDC00 \<le> c \<and> c \<le> 0xDFFF)"

definition then_append :: "jsstring \<Rightarrow> js_error + jsstring \<Rightarrow> js_error + jsstring" where
  "then_append s r = (case r of Inl e \<Rightarrow> Inl e | Inr t \<Rightarrow> Inr (s @ t))"

fun encode :: "jsstring \<Rightarrow> js_error + jsstring" where
  "encode [] = Inr []"
| "encode [c] =
     (if unreserved c then Inr [c]
      else if lead_surrogate c \<or> trail_surrogate c then Inl (URIError (js ''URI malformed''))
      else Inr (escape (unat c)))"
| "encode (c # d # ds) =
     (if unreserved c then then_append [c] (encode (d # ds))
      else if trail_surrogate c then Inl (URIError (js ''URI malformed''))
      else if lead_surrogate c then
        (if trail_surrogate d then
           then_append
             (escape (0x10000 + (unat c - 0xD800) * 0x400 + (unat d - 0xDC00)))
             (encode ds)
         else Inl (URIError (js ''URI malformed'')))
      else then_append (escape (unat c)) (encode (d # ds)))"

definition encodeURIComponent :: "jsval \<Rightarrow> js_error + jsstring" where
  "encodeURIComponent v =
     (case ToString v of
        Inl error \<Rightarrow> Inl error
      | Inr s \<Rightarrow> encode s)"

section \<open>The environment, the outside world and the effects\<close>

text \<open>
  \<open>process.env\<close>, as far as the handlers read it. The source only tests whether a
  variable is truthy, so a variable that is not set and one that is empty are the same
  to it: both are the empty string here. \<open>TWILIO_PHONE_NUMBER\<close> is one of the variables
  the start-up check requires (the process exits without it).
\<close>

record env =
  TWILIO_PHONE_NUMBER :: jsstring
  SERVER_BASE_URL :: jsstring
  PORT :: jsstring
  VERCEL_URL :: jsstring
  RENDER_EXTERNAL_URL :: jsstring

definition GHL_API_URL :: jsstring where
  "GHL_API_URL = js ''https://rest.gohighlevel.com/v1''"

definition getServerBaseUrl :: "env \<Rightarrow> jsstring" where
  "getServerBaseUrl e =
     (if SERVER_BASE_URL e \<noteq> [] then SERVER_BASE_URL e
      else
        let port = (if PORT e \<noteq> [] then PORT e else js ''10000'') in
        if VERCEL_URL e \<noteq> [] then js ''https://'' @ VERCEL_URL e
        else if RENDER_EXTERNAL_URL e \<noteq> [] then RENDER_EXTERNAL_URL e
        else js ''http://localhost:'' @ port)"

datatype http_method = GET | POST

text \<open>What the source reads of a \<open>fetch\<close> response.\<close>

record fetch_response =
  ok :: bool
  status :: nat
  statusText :: jsstring
  resp_text :: "js_error + jsstring"
  resp_json :: "js_error + jsval"

text \<open>
  The options of the Twilio client, and the parameters of the two requests made with it.
  The message body and the two destination numbers are handed over as the values they
  are.
\<close>

record client_options =
  timeout :: "nat option"
  keepAlive :: "bool option"

record message_params =
  sms_body :: jsval
  sms_from :: jsstring
  sms_to :: jsval
  attempt :: nat
  maxPrice :: rat

record call_params =
  twiml :: jsstring
  call_to :: jsval
  call_from :: jsstring
  statusCallback :: jsstring
  statusCallbackEvent :: "jsstring list"
  statusCallbackMethod :: jsstring

text \<open>
  Everything the program does to the outside, in program order: an HTTP request made with
  \<open>fetch\<close> (method and URL; headers and bodies are not recorded), a message or a call
  created through the Twilio client, and a line written with \<open>console.error\<close> (its first
  argument). The \<open>console.log\<close> lines are not recorded as effects; the template literals
  in their arguments are evaluated where they stand, since converting a value to a
  string can throw.
\<close>

datatype effect =
    Fetch http_method jsstring
  | MessagesCreate client_options message_params
  | CallsCreate client_options call_params
  | ConsoleError jsstring

text \<open>
  How the outside answers: each request either rejects with an error or resolves. No
  handler makes the same request twice, so a function of the request is enough.
\<close>

record world =
  fetch :: "http_method \<Rightarrow> jsstring \<Rightarrow> js_error + fetch_response"
  messages_create :: "client_options \<Rightarrow> message_params \<Rightarrow> js_error + jsstring"
  calls_create :: "client_options \<Rightarrow> call_params \<Rightarrow> js_error + jsstring"

text \<open>
  A request as the handlers see it after Express has parsed it: the fields of
  \<open>req.query\<close> and of \<open>req.body\<close>, each of them any value, \<open>undefined\<close> when
  absent. Both are taken to be there: the body parsers of lines 14 and 15 leave an
  object or an array (an array has none of the fields the handlers read), and an empty
  object when there is no body to parse.
\<close>

record request =
  query :: "string \<Rightarrow> jsval"
  body :: "string \<Rightarrow> jsval"

datatype reply_body = Json "(string \<times> jsval) list" | Text jsstring

record reply =
  code :: nat
  content :: reply_body

section \<open>Sending a message\<close>

text \<open>
  \<open>sendSMS\<close> (lines 114 to 174). Before the \<open>try\<close> block, the first log line reads
  \<open>message.length\<close>, which throws when the message is \<open>null\<close> or \<open>undefined\<close>. Then
  the \<open>try\<close> block, and the \<open>catch\<close> that wraps whatever the block throws.
  Constructing the Twilio client from the configured credentials is taken to succeed.
\<close>

definition sendSMS_try :: "env \<Rightarrow> world \<Rightarrow> jsval \<Rightarrow> jsval \<Rightarrow> effect list \<times> (js_error + jsstring)" where
  "sendSMS_try e w phoneNumber msg =
     (case formatPhoneNumber phoneNumber of
        Inl error \<Rightarrow> ([], Inl error)
      | Inr formattedNumber \<Rightarrow>
          if \<not> truthy formattedNumber then
            ([ConsoleError (js ''Invalid phone number format:'')],
             Inl (Error (js ''Invalid phone number format'')))
          else
            let clientOptions = \<lparr>timeout = Some 30000, keepAlive = Some False\<rparr>;
                params = \<lparr>sms_body = msg, sms_from = TWILIO_PHONE_NUMBER e,
                          sms_to = formattedNumber, attempt = 1, maxPrice = 15 / 100\<rparr>
            in ([MessagesCreate clientOptions params], messages_create w clientOptions params))"

definition sendSMS :: "env \<Rightarrow> world \<Rightarrow> jsval \<Rightarrow> jsval \<Rightarrow> effect list \<times> (js_error + jsstring)" where
  "sendSMS e w phoneNumber msg =
     (case property msg ''length'' of
        Inl error \<Rightarrow> ([], Inl error)
      | Inr messageLength \<Rightarrow>
          case sendSMS_try e w phoneNumber msg of
            (effs, Inr sid) \<Rightarrow> (effs, Inr sid)
          | (effs, Inl error) \<Rightarrow>
              (effs @ [ConsoleError (0x0A # js ''=== SMS Send Error ===''),
                       ConsoleError (js ''Error details:'')],
               Inl (Error (js ''SMS send failed: '' @ message error))))"

text \<open>
  \<open>POST /api/sms-webhook\<close> (lines 177 to 226). The log lines before the \<open>try\<close> block
  write the request with \<open>JSON.stringify\<close>, which does not throw on parsed values. Both
  values handed to \<open>sendSMS\<close> are truthy, and its call stands in a \<open>try\<close> block of its
  own.
\<close>

definition sms_webhook :: "env \<Rightarrow> world \<Rightarrow> request \<Rightarrow> effect list \<times> reply" where
  "sms_webhook e w req =
     (let phoneNumber =
            or_else (or_else (or_else (body req ''phoneNumber'') (body req ''recipient''))
                       (query req ''recipient'')) (query req ''phoneNumber'');
          msg = or_else (body req ''message'') (query req ''message'')
      in
      if \<not> truthy phoneNumber \<or> \<not> truthy msg then
        ([ConsoleError (js ''Missing parameters:'')],
         \<lparr>code = 400, content = Json [(''success'', Bool False),
            (''error'', Str (js ''Missing phoneNumber/recipient or message''))]\<rparr>)
      else
        case sendSMS e w phoneNumber msg of
          (effs, Inr messageSid) \<Rightarrow>
            (effs, \<lparr>code = 200, content = Json [(''success'', Bool True),
               (''messageSid'', Str messageSid),
               (''message'', Str (js ''SMS sent successfully''))]\<rparr>)
        | (effs, Inl smsError) \<Rightarrow>
            (effs @ [ConsoleError (js ''Error sending SMS in webhook:'')],
             \<lparr>code = 500, content = Json [(''success'', Bool False),
               (''error'', Str (js ''SMS send failed: '' @ message smsError))]\<rparr>))"

text \<open>\<open>POST /send-sms\<close> (lines 660 to 689); the whole body stands in a \<open>try\<close> block.\<close>

definition send_sms :: "env \<Rightarrow> world \<Rightarrow> request \<Rightarrow> effect list \<times> reply" where
  "send_sms e w req =
     (let phoneNumber = body req ''phoneNumber''; msg = body req ''message'' in
      if \<not> truthy phoneNumber \<or> \<not> truthy msg then
        ([ConsoleError (js ''Missing parameters in direct SMS:'')],
         \<lparr>code = 400, content = Json [(''error'',
            Str (js ''Missing required parameters: phoneNumber and message''))]\<rparr>)
      else
        case sendSMS e w phoneNumber msg of
          (effs, Inr messageSid) \<Rightarrow>
            (effs, \<lparr>code = 200, content = Json [(''success'', Bool True),
               (''message'', Str (js ''SMS sent successfully'')),
               (''messageSid'', Str messageSid)]\<rparr>)
        | (effs, Inl error) \<Rightarrow>
            (effs @ [ConsoleError (js ''Error in direct SMS endpoint:'')],
             \<lparr>code = 500, content = Json [(''error'', Str (js ''Failed to send SMS'')),
               (''message'', Str (message error))]\<rparr>))"

section \<open>The CRM functions\<close>

text \<open>
  \<open>findOrCreateContact\<close> (lines 229 to 272): search the CRM for the phone number, and
  create the contact when the search finds none. The search result is \<open>contacts[0]\<close>
  when \<open>contacts\<close> is truthy and has a positive \<open>length\<close>: a non-empty array or a
  non-empty string. (An object that carries a \<open>length\<close> of its own is not modelled.)
\<close>

definition findOrCreateContact_try :: "world \<Rightarrow> jsval \<Rightarrow> effect list \<times> (js_error + jsval)" where
  "findOrCreateContact_try w phoneNumber =
     (case ToString phoneNumber of
        Inl error \<Rightarrow> ([], Inl error)
      | Inr phone \<Rightarrow>
          let searchUrl = GHL_API_URL @ js ''/contacts/search?query='' @ phone;
              createUrl = GHL_API_URL @ js ''/contacts''
          in
          case fetch w GET searchUrl of
            Inl error \<Rightarrow> ([Fetch GET searchUrl], Inl error)
          | Inr searchResponse \<Rightarrow>
              if \<not> ok searchResponse then
                ([Fetch GET searchUrl],
                 Inl (Error (js ''Failed to search contact: '' @ statusText searchResponse)))
              else
                case resp_json searchResponse of
                  Inl error \<Rightarrow> ([Fetch GET searchUrl], Inl error)
                | Inr searchResult \<Rightarrow>
                    case property searchResult ''contacts'' of
                      Inl error \<Rightarrow> ([Fetch GET searchUrl], Inl error)
                    | Inr (Arr (contact # others)) \<Rightarrow> ([Fetch GET searchUrl], Inr contact)
                    | Inr (Str (c # cs)) \<Rightarrow> ([Fetch GET searchUrl], Inr (Str [c]))
                    | Inr _ \<Rightarrow>
                        case fetch w POST createUrl of
                          Inl error \<Rightarrow> ([Fetch GET searchUrl, Fetch POST createUrl], Inl error)
                        | Inr createResponse \<Rightarrow>
                            if \<not> ok createResponse then
                              ([Fetch GET searchUrl, Fetch POST createUrl],
                               Inl (Error (js ''Failed to create contact: '' @ statusText createResponse)))
                            else
                              case resp_json createResponse of
                                Inl error \<Rightarrow> ([Fetch GET searchUrl, Fetch POST createUrl], Inl error)
                              | Inr newContact \<Rightarrow>
                                  ([Fetch GET searchUrl, Fetch POST createUrl],
                                   property newContact ''contact''))"

definition findOrCreateContact :: "world \<Rightarrow> jsval \<Rightarrow> effect list \<times> (js_error + jsval)" where
  "findOrCreateContact w phoneNumber =
     (case findOrCreateContact_try w phoneNumber of
        (effs, Inr contact) \<Rightarrow> (effs, Inr contact)
      | (effs, Inl error) \<Rightarrow> (effs @ [ConsoleError (js ''Error in findOrCreateContact:'')], Inl error))"

text \<open>\<open>addTagToContact\<close> (lines 275 to 297).\<close>

definition addTagToContact_try :: "world \<Rightarrow> jsval \<Rightarrow> jsval \<Rightarrow> effect list \<times> (js_error + jsval)" where
  "addTagToContact_try w contactId tag =
     (case ToString contactId of
        Inl error \<Rightarrow> ([], Inl error)
      | Inr contact \<Rightarrow>
          let url = GHL_API_URL @ js ''/contacts/'' @ contact @ js ''/tags'' in
          case fetch w POST url of
            Inl error \<Rightarrow> ([Fetch POST url], Inl error)
          | Inr response \<Rightarrow>
              if \<not> ok response then
                ([Fetch POST url], Inl (Error (js ''Failed to add tag: '' @ statusText response)))
              else ([Fetch POST url], resp_json response))"

definition addTagToContact :: "world \<Rightarrow> jsval \<Rightarrow> jsval \<Rightarrow> effect list \<times> (js_error + jsval)" where
  "addTagToContact w contactId tag =
     (case addTagToContact_try w contactId tag of
        (effs, Inr result) \<Rightarrow> (effs, Inr result)
      | (effs, Inl error) \<Rightarrow> (effs @ [ConsoleError (js ''Error in addTagToContact:'')], Inl error))"

section \<open>Creating the voice session and placing the call\<close>

text \<open>
  The tagging webhook: the address the \<open>addContact\<close> tool of the voice session is
  registered with (line 512), for the provider to call by itself, and the address the
  status callback requests.
\<close>

definition tagging_webhook :: jsstring where
  "tagging_webhook = js ''https://tag-ghl-danella.onrender.com/api/contacts''"

text \<open>
  The implementation of the \<open>sendSMS\<close> tool of the voice session (lines 467 to 498): it
  posts to this server's own \<open>/api/sms-webhook\<close> and returns a sentence. Its parameters
  (\<open>recipient\<close>, \<open>message\<close>) are read off its argument, which throws when the
  argument is \<open>null\<close> or \<open>undefined\<close>, and travel in the body of the request.
\<close>

definition sendSMS_tool_try :: "env \<Rightarrow> world \<Rightarrow> jsval \<Rightarrow> effect list \<times> (js_error + jsstring)" where
  "sendSMS_tool_try e w parameters =
     (let url = getServerBaseUrl e @ js ''/api/sms-webhook'' in
      case property parameters ''recipient'' of
        Inl error \<Rightarrow> ([], Inl error)
      | Inr recipient \<Rightarrow>
      case property parameters ''message'' of
        Inl error \<Rightarrow> ([], Inl error)
      | Inr msg \<Rightarrow>
      case fetch w POST url of
        Inl error \<Rightarrow> ([Fetch POST url], Inl error)
      | Inr response \<Rightarrow>
          if \<not> ok response then
            (case resp_text response of
               Inl error \<Rightarrow> ([Fetch POST url], Inl error)
             | Inr errorData \<Rightarrow>
                 ([Fetch POST url, ConsoleError (js ''SMS webhook error:'')],
                  Inl (Error (js ''Failed to send SMS''))))
          else
            case resp_json response of
              Inl error \<Rightarrow> ([Fetch POST url], Inl error)
            | Inr result \<Rightarrow>
                case property result ''messageSid'' of
                  Inl error \<Rightarrow> ([Fetch POST url], Inl error)
                | Inr messageSid \<Rightarrow>
                    case ToString messageSid of
                      Inl error \<Rightarrow> ([Fetch POST url], Inl error)
                    | Inr sid \<Rightarrow>
                        ([Fetch POST url],
                         Inr (js ''SMS sent successfully ('' @ sid @ js '')'')))"

definition sendSMS_tool :: "env \<Rightarrow> world \<Rightarrow> jsval \<Rightarrow> effect list \<times> jsstring" where
  "sendSMS_tool e w parameters =
     (case sendSMS_tool_try e w parameters of
        (effs, Inr sentence) \<Rightarrow> (effs, sentence)
      | (effs, Inl error) \<Rightarrow>
          (effs @ [ConsoleError (js ''Error in sendSMS tool:'')], js ''Failed to send SMS''))"

text \<open>
  \<open>createUltravoxCall\<close> (lines 299 to 552). The prompt is rendered first, outside the
  \<open>try\<close> block: its template interpolates the name, the user type and the phone number
  (in this order at its head, lines 305 to 307, and again further down). Then one POST
  to the voice provider, with the prompt and the tools in its body; a response that is
  not ok becomes an error that carries the status and the body text.
\<close>

definition ultravox_calls :: jsstring where
  "ultravox_calls = js ''https://api.ultravox.ai/api/calls''"

definition createUltravoxCall_try :: "world \<Rightarrow> effect list \<times> (js_error + jsval)" where
  "createUltravoxCall_try w =
     (case fetch w POST ultravox_calls of
        Inl error \<Rightarrow> ([Fetch POST ultravox_calls], Inl error)
      | Inr response \<Rightarrow>
          if \<not> ok response then
            (case resp_text response of
               Inl error \<Rightarrow> ([Fetch POST ultravox_calls], Inl error)
             | Inr errorText \<Rightarrow>
                 ([Fetch POST ultravox_calls],
                  Inl (Error (js ''Ultravox API error: '' @ show_nat (status response) @ js '' ''
                              @ statusText response @ js '' - '' @ errorText))))
          else ([Fetch POST ultravox_calls], resp_json response))"

definition createUltravoxCall :: "world \<Rightarrow> jsval \<Rightarrow> jsval \<Rightarrow> jsval \<Rightarrow> effect list \<times> (js_error + jsval)" where
  "createUltravoxCall w clientName phoneNumber userType =
     (case interpolate [clientName, userType, phoneNumber] of
        Inl error \<Rightarrow> ([], Inl error)
      | Inr systemPrompt \<Rightarrow>
          case createUltravoxCall_try w of
            (effs, Inr data) \<Rightarrow> (effs, Inr data)
          | (effs, Inl error) \<Rightarrow>
              (effs @ [ConsoleError (js ''Error creating Ultravox call:'')], Inl error))"

text \<open>
  \<open>initiateCall\<close> (lines 554 to 582), all of it in one \<open>try\<close> block: the first log line
  interpolates the three arguments; then the session, the status callback URL built
  from the name and the phone number, the TwiML built from the join URL, and the call
  through the Twilio client.
\<close>

definition statusCallbackUrl :: "jsstring \<Rightarrow> jsstring \<Rightarrow> jsstring \<Rightarrow> jsstring" where
  "statusCallbackUrl baseUrl clientName phoneNumber =
     baseUrl @ js ''/call-status?clientName='' @ clientName @ js ''&phoneNumber='' @ phoneNumber"

definition initiateCall_try :: "env \<Rightarrow> world \<Rightarrow> jsval \<Rightarrow> jsval \<Rightarrow> jsval \<Rightarrow> effect list \<times> (js_error + jsstring)" where
  "initiateCall_try e w clientName phoneNumber userType =
     (case interpolate [clientName, userType, phoneNumber] of
        Inl error \<Rightarrow> ([], Inl error)
      | Inr logged \<Rightarrow>
          case createUltravoxCall w clientName phoneNumber userType of
            (effs, Inl error) \<Rightarrow> (effs, Inl error)
          | (effs, Inr ultravoxCall) \<Rightarrow>
              case property ultravoxCall ''joinUrl'' of
                Inl error \<Rightarrow> (effs, Inl error)
              | Inr joinUrl \<Rightarrow>
                  let baseUrl = getServerBaseUrl e in
                  case encodeURIComponent clientName of
                    Inl error \<Rightarrow> (effs, Inl error)
                  | Inr encodedName \<Rightarrow>
                      case encodeURIComponent phoneNumber of
                        Inl error \<Rightarrow> (effs, Inl error)
                      | Inr encodedPhone \<Rightarrow>
                          case ToString joinUrl of
                            Inl error \<Rightarrow> (effs, Inl error)
                          | Inr url \<Rightarrow>
                              let clientOptions = \<lparr>timeout = None, keepAlive = None\<rparr>;
                                  params =
                                    \<lparr>twiml = js ''<Response><Connect><Stream url='' @ [0x22]
                                               @ url @ [0x22] @ js ''/></Connect></Response>'',
                                     call_to = phoneNumber,
                                     call_from = TWILIO_PHONE_NUMBER e,
                                     statusCallback =
                                       statusCallbackUrl baseUrl encodedName encodedPhone,
                                     statusCallbackEvent =
                                       [js ''initiated'', js ''ringing'', js ''answered'',
                                        js ''completed''],
                                     statusCallbackMethod = js ''POST''\<rparr>
                              in (effs @ [CallsCreate clientOptions params],
                                  calls_create w clientOptions params))"

definition initiateCall :: "env \<Rightarrow> world \<Rightarrow> jsval \<Rightarrow> jsval \<Rightarrow> jsval \<Rightarrow> effect list \<times> (js_error + jsstring)" where
  "initiateCall e w clientName phoneNumber userType =
     (case initiateCall_try e w clientName phoneNumber userType of
        (effs, Inr sid) \<Rightarrow> (effs, Inr sid)
      | (effs, Inl error) \<Rightarrow> (effs @ [ConsoleError (js ''Error initiating call:'')], Inl error))"

text \<open>
  \<open>handleCall\<close> (lines 701 to 734), behind \<open>GET\<close> and \<open>POST /initiate-call\<close>: its whole
  body stands in a \<open>try\<close> block, and the \<open>catch\<close> replies \<open>500\<close>. The phone number
  handed to \<open>initiateCall\<close> is the formatted one.
\<close>

definition handleCall_try :: "env \<Rightarrow> world \<Rightarrow> request \<Rightarrow> effect list \<times> (js_error + reply)" where
  "handleCall_try e w req =
     (let clientName = or_else (query req ''clientName'') (body req ''clientName'');
          phoneNumber = or_else (query req ''phoneNumber'') (body req ''phoneNumber'');
          userType = or_else (or_else (query req ''userType'') (body req ''userType''))
                       (Str (js ''non-VIP''))
      in
      if \<not> truthy clientName \<or> \<not> truthy phoneNumber then
        ([], Inr \<lparr>code = 400, content = Json [(''error'',
                Str (js ''Missing required parameters: clientName and phoneNumber''))]\<rparr>)
      else
        case formatPhoneNumber phoneNumber of
          Inl error \<Rightarrow> ([], Inl error)
        | Inr formattedNumber \<Rightarrow>
            if \<not> truthy formattedNumber then
              ([], Inr \<lparr>code = 400, content = Json [(''error'',
                      Str (js ''Invalid phone number format. Please provide a valid phone number (e.g., 1234567890 or +1234567890)''))]\<rparr>)
            else
              case initiateCall e w clientName formattedNumber userType of
                (effs, Inr callSid) \<Rightarrow>
                  (effs, Inr \<lparr>code = 200, content = Json [(''success'', Bool True),
                     (''message'', Str (js ''Call initiated successfully'')),
                     (''callSid'', Str callSid)]\<rparr>)
              | (effs, Inl error) \<Rightarrow> (effs, Inl error))"

definition handleCall :: "env \<Rightarrow> world \<Rightarrow> request \<Rightarrow> effect list \<times> reply" where
  "handleCall e w req =
     (case handleCall_try e w req of
        (effs, Inr answer) \<Rightarrow> (effs, answer)
      | (effs, Inl error) \<Rightarrow>
          (effs @ [ConsoleError (js ''Error in handleCall:'')],
           \<lparr>code = 500, content = Json [(''error'', Str (js ''Failed to initiate call'')),
             (''message'', Str (message error))]\<rparr>))"

section \<open>The status callback\<close>

text \<open>
  The two tag literals of the handler. The arrow between \<open>events\<close> and the tag name is
  the character U+2192.
\<close>

definition busy_tag :: jsstring where
  "busy_tag = js ''events '' @ [0x2192] @ js '' ve0525flash-call-busy''"

definition no_answer_tag :: jsstring where
  "no_answer_tag = js ''events '' @ [0x2192] @ js '' ve0525flash-call-no-answer''"

definition tagUrl :: "jsstring \<Rightarrow> jsstring \<Rightarrow> jsstring \<Rightarrow> jsstring" where
  "tagUrl clientName formattedPhone tag =
     tagging_webhook @ js ''?clientName='' @ clientName @ js ''&phoneNumber='' @ formattedPhone
       @ js ''&tag='' @ tag"

text \<open>
  The \<open>try\<close> block of the cases \<open>busy\<close> (lines 611 to 623) and \<open>no-answer\<close> (lines 630
  to 642): the same statements, with the tag literal of the case. Its last statement
  logs the success with \<open>${to}\<close> in a template literal.
\<close>

definition tag_contact :: "world \<Rightarrow> jsstring \<Rightarrow> jsval \<Rightarrow> jsval \<Rightarrow> jsval \<Rightarrow> effect list \<times> (js_error + unit)" where
  "tag_contact w tagLiteral clientName phoneNumber to =
     (case encodeURIComponent (Str tagLiteral) of
        Inl error \<Rightarrow> ([], Inl error)
      | Inr tag \<Rightarrow>
          case formatPhoneNumberForTagging (or_else phoneNumber to) of
            Inl error \<Rightarrow> ([], Inl error)
          | Inr formattedPhone \<Rightarrow>
              case encodeURIComponent clientName of
                Inl error \<Rightarrow> ([], Inl error)
              | Inr encodedName \<Rightarrow>
                  case ToString formattedPhone of
                    Inl error \<Rightarrow> ([], Inl error)
                  | Inr phone \<Rightarrow>
                      let url = tagUrl encodedName phone tag in
                      case fetch w GET url of
                        Inl error \<Rightarrow> ([Fetch GET url], Inl error)
                      | Inr response \<Rightarrow>
                          if \<not> ok response then
                            (case resp_text response of
                               Inl error \<Rightarrow> ([Fetch GET url], Inl error)
                             | Inr errorText \<Rightarrow>
                                 ([Fetch GET url],
                                  Inl (Error (js ''Failed to tag contact: '' @ statusText response
                                              @ js '' - '' @ errorText))))
                          else
                            case ToString to of
                              Inl error \<Rightarrow> ([Fetch GET url], Inl error)
                            | Inr logged \<Rightarrow> ([Fetch GET url], Inr ()))"

text \<open>A case of the \<open>switch\<close> with its \<open>try\<close> and \<open>catch\<close>: a failure is logged and kept.\<close>

definition tag_and_log :: "world \<Rightarrow> jsstring \<Rightarrow> jsstring \<Rightarrow> jsval \<Rightarrow> jsval \<Rightarrow> jsval \<Rightarrow> effect list" where
  "tag_and_log w tagLiteral label clientName phoneNumber to =
     (case tag_contact w tagLiteral clientName phoneNumber to of
        (effs, Inr u) \<Rightarrow> effs
      | (effs, Inl error) \<Rightarrow> effs @ [ConsoleError label])"

text \<open>\<open>res.sendStatus(200)\<close>\<close>

definition status_200 :: reply where
  "status_200 = \<lparr>code = 200, content = Text (js ''OK'')\<rparr>"

text \<open>
  \<open>POST /call-status\<close> (lines 585 to 657), an \<open>async\<close> handler without a \<open>try\<close> block
  of its own. Every case of the \<open>switch\<close> begins with a log line whose template literal
  converts \<open>callSid\<close> (and \<open>to\<close>, or \<open>callStatus\<close>) to a string; in the cases \<open>busy\<close>
  and \<open>no-answer\<close> that line stands before the \<open>try\<close>. When a conversion throws, the
  handler throws, and \<open>res.sendStatus(200)\<close>, which follows the \<open>switch\<close>, is not
  reached. A status that matches no case goes straight to it.
\<close>

definition call_status :: "world \<Rightarrow> request \<Rightarrow> effect list \<times> (js_error + reply)" where
  "call_status w req =
     (let callStatus = body req ''CallStatus'';
          callSid = body req ''CallSid'';
          to = body req ''To'';
          clientName = query req ''clientName'';
          phoneNumber = query req ''phoneNumber''
      in
      if callStatus = Str (js ''initiated'') then
        (case interpolate [callSid, to] of
           Inl error \<Rightarrow> ([], Inl error)
         | Inr logged \<Rightarrow> ([], Inr status_200))
      else if callStatus = Str (js ''ringing'') then
        (case interpolate [callSid] of
           Inl error \<Rightarrow> ([], Inl error)
         | Inr logged \<Rightarrow> ([], Inr status_200))
      else if callStatus = Str (js ''busy'') then
        (case interpolate [callSid] of
           Inl error \<Rightarrow> ([], Inl error)
         | Inr logged \<Rightarrow>
             (tag_and_log w busy_tag (js ''Error tagging busy contact:'') clientName phoneNumber to,
              Inr status_200))
      else if callStatus = Str (js ''no-answer'') then
        (case interpolate [callSid] of
           Inl error \<Rightarrow> ([], Inl error)
         | Inr logged \<Rightarrow>
             (tag_and_log w no_answer_tag (js ''Error tagging no-answer contact:'')
                clientName phoneNumber to,
              Inr status_200))
      else if callStatus = Str (js ''failed'') \<or> callStatus = Str (js ''canceled'') then
        (case interpolate [callSid, callStatus] of
           Inl error \<Rightarrow> ([], Inl error)
         | Inr logged \<Rightarrow> ([], Inr status_200))
      else if callStatus = Str (js ''completed'') then
        (case interpolate [callSid] of
           Inl error \<Rightarrow> ([], Inl error)
         | Inr logged \<Rightarrow> ([], Inr status_200))
      else ([], Inr status_200))"

section \<open>The public interface\<close>

text \<open>\<open>GET /health\<close> (lines 692 to 694).\<close>

definition health :: "effect list \<times> reply" where
  "health = ([], \<lparr>code = 200, content = Json [(''status'', Str (js ''ok''))]\<rparr>)"

text \<open>
  The routes the application registers, and the handler behind each. A handler either
  replies or throws; only the status callback can throw.
\<close>

datatype route = SmsWebhook | CallStatus | SendSms | Health | InitiateCall

definition replied :: "effect list \<times> reply \<Rightarrow> effect list \<times> (js_error + reply)" where
  "replied r = (fst r, Inr (snd r))"

fun serve :: "env \<Rightarrow> world \<Rightarrow> route \<Rightarrow> request \<Rightarrow> effect list \<times> (js_error + reply)" where
  "serve e w SmsWebhook req = replied (sms_webhook e w req)"
| "serve e w CallStatus req = call_status w req"
| "serve e w SendSms req = replied (send_sms e w req)"
| "serve e w Health req = replied health"
| "serve e w InitiateCall req = replied (handleCall e w req)"

text \<open>A request made with \<open>fetch\<close> that goes to the CRM's REST API.\<close>

fun crm_api_request :: "effect \<Rightarrow> bool" where
  "crm_api_request (Fetch m url) = startsWith url GHL_API_URL"
| "crm_api_request (MessagesCreate opts params) = False"
| "crm_api_request (CallsCreate opts params) = False"
| "crm_api_request (ConsoleError label) = False"

fun fetches :: "effect list \<Rightarrow> (http_method \<times> jsstring) list" where
  "fetches [] = []"
| "fetches (Fetch m url # effs) = (m, url) # fetches effs"
| "fetches (MessagesCreate opts params # effs) = fetches effs"
| "fetches (CallsCreate opts params # effs) = fetches effs"
| "fetches (ConsoleError label # effs) = fetches effs"

fun messages :: "effect list \<Rightarrow> (client_options \<times> message_params) list" where
  "messages [] = []"
| "messages (MessagesCreate opts params # effs) = (opts, params) # messages effs"
| "messages (Fetch m url # effs) = messages effs"
| "messages (CallsCreate opts params # effs) = messages effs"
| "messages (ConsoleError label # effs) = messages effs"

fun calls :: "effect list \<Rightarrow> (client_options \<times> call_params) list" where
  "calls [] = []"
| "calls (CallsCreate opts params # effs) = (opts, params) # calls effs"
| "calls (Fetch m url # effs) = calls effs"
| "calls (MessagesCreate opts params # effs) = calls effs"
| "calls (ConsoleError label # effs) = calls effs"

section \<open>Concrete requests and worlds\<close>

text \<open>
  The inputs at which the theorems below are evaluated: an environment, a world where every
  outside request succeeds and one where every request fails, and three requests.
\<close>

definition example_env :: env where
  "example_env =
     \<lparr>TWILIO_PHONE_NUMBER = js ''+15550001111'',
      SERVER_BASE_URL = js ''https://calls.example.com'',
      PORT = [], VERCEL_URL = [], RENDER_EXTERNAL_URL = []\<rparr>"

definition accepting_world :: world where
  "accepting_world =
     \<lparr>fetch = (\<lambda>m url. Inr \<lparr>ok = True, status = 200, statusText = js ''OK'',
                             resp_text = Inr [],
                             resp_json = Inr (Obj [''joinUrl'' \<mapsto> Str (js ''wss://voice.example/join'')])\<rparr>),
      messages_create = (\<lambda>opts params. Inr (js ''SM123'')),
      calls_create = (\<lambda>opts params. Inr (js ''CA123''))\<rparr>"

definition failing_world :: world where
  "failing_world =
     \<lparr>fetch = (\<lambda>m url. Inr \<lparr>ok = False, status = 500, statusText = js ''Internal Server Error'',
                             resp_text = Inr (js ''upstream exploded''),
                             resp_json = Inl (Error (js ''Unexpected token''))\<rparr>),
      messages_create = (\<lambda>opts params. Inl (Error (js ''carrier rejected''))),
      calls_create = (\<lambda>opts params. Inl (Error (js ''dial failed'')))\<rparr>"

definition no_fields :: "string \<Rightarrow> jsval" where
  "no_fields = (\<lambda>k. Undefined)"

text \<open>The scenario of the specification: the line was busy, and the callback names Jane.\<close>

definition busy_request :: request where
  "busy_request =
     \<lparr>query = no_fields(''clientName'' := Str (js ''Jane''), ''phoneNumber'' := Str (js ''5551234567'')),
      body = no_fields(''CallStatus'' := Str (js ''busy''), ''CallSid'' := Str (js ''CA123''),
                       ''To'' := Str (js ''+15551234567''))\<rparr>"

text \<open>
  The same callback posted as JSON, with an object in place of the call identifier:
  \<open>{"CallStatus": "busy", "CallSid": {"toString": null}, "To": "+15551234567"}\<close>.
\<close>

definition object_sid_request :: request where
  "object_sid_request =
     \<lparr>query = no_fields(''clientName'' := Str (js ''Jane''), ''phoneNumber'' := Str (js ''5551234567'')),
      body = no_fields(''CallStatus'' := Str (js ''busy''), ''CallSid'' := Obj [''toString'' \<mapsto> Null],
                       ''To'' := Str (js ''+15551234567''))\<rparr>"

text \<open>A request to \<open>/initiate-call\<close> whose phone number is written the way people write it.\<close>

definition initiate_request :: request where
  "initiate_request =
     \<lparr>query = no_fields(''clientName'' := Str (js ''Jane''), ''phoneNumber'' := Str (js ''(555) 123-4567'')),
      body = no_fields\<rparr>"

section \<open>Properties of the phone functions\<close>

lemma filter_isDigit_dropWhile:
  "filter isDigit (dropWhile isWhiteSpace s) = filter isDigit s"
proof (induction s)
  case Nil
  show ?case by simp
next
  case (Cons c s)
  have "isWhiteSpace c \<Longrightarrow> \<not> isDigit c"
    by (auto simp: isWhiteSpace_def isDigit_def word_le_nat_alt)
  with Cons show ?case by auto
qed

lemma replace_non_digits_trim:
  "replace_non_digits (trim s) = filter isDigit s"
proof -
  have "filter isDigit (trim s) = rev (filter isDigit (dropWhile isWhiteSpace (rev (dropWhile isWhiteSpace s))))"
    by (simp add: trim_def rev_filter)
  also have "\<dots> = rev (filter isDigit (rev (dropWhile isWhiteSpace s)))"
    by (simp only: filter_isDigit_dropWhile)
  also have "\<dots> = filter isDigit (dropWhile isWhiteSpace s)"
    by (simp add: rev_filter)
  finally show ?thesis
    by (simp add: replace_non_digits_def filter_isDigit_dropWhile)
qed

lemma filter_isDigit_all:
  "list_all isDigit x \<Longrightarrow> filter isDigit x = x"
  by (induction x) auto

lemma formatPhoneNumber_digits:
  "formatPhoneNumber (Str raw) =
     Inr (let digits = filter isDigit raw in
      if startsWith digits (js ''63'') then Str (js ''+'' @ digits)
      else if length digits = 10 then Str (js ''+1'' @ digits)
      else if length digits \<ge> 11 then
        (if startsWith digits (js ''1'') then Str (js ''+'' @ digits)
         else if startsWith digits (js ''63'') then Str (js ''+'' @ digits)
         else Null)
      else Null)"
proof (cases "raw = []")
  case True
  then show ?thesis
    by (simp add: formatPhoneNumber_def startsWith_def js_def)
next
  case False
  then show ?thesis
    by (simp add: formatPhoneNumber_def replace_non_digits_trim Let_def)
qed

lemma formatPhoneNumberForTagging_Str:
  "formatPhoneNumberForTagging (Str s) = Inr (if s = [] then Null else Str (filter isDigit s))"
  by (simp add: formatPhoneNumberForTagging_def replace_non_digits_trim)

lemma formatPhoneNumberForTagging_Null:
  "formatPhoneNumberForTagging Null = Inr Null" "formatPhoneNumberForTagging Undefined = Inr Null"
  by (simp_all add: formatPhoneNumberForTagging_def)

text \<open>The tagging key in general: \<open>null\<close> for a falsy value, the digits of its text otherwise.\<close>

lemma formatPhoneNumberForTagging_cases:
  "formatPhoneNumberForTagging v =
     (if \<not> truthy v then Inr Null
      else case toString_method v of
             Inl error \<Rightarrow> Inl error
           | Inr text \<Rightarrow> Inr (Str (filter isDigit text)))"
  by (simp add: formatPhoneNumberForTagging_def replace_non_digits_trim split: sum.splits)

text \<open>What \<open>formatPhoneNumber\<close> returns: an error, \<open>null\<close>, or a non-empty string.\<close>

lemma formatPhoneNumber_cases:
  "(\<exists>error. formatPhoneNumber v = Inl error) \<or> formatPhoneNumber v = Inr Null
     \<or> (\<exists>d. formatPhoneNumber v = Inr (Str d) \<and> d \<noteq> [])"
  by (auto simp add: formatPhoneNumber_def Let_def js_def split: sum.splits)

lemma formatPhoneNumber_string_cases:
  "formatPhoneNumber (Str s) = Inr Null \<or> (\<exists>d. formatPhoneNumber (Str s) = Inr (Str d) \<and> d \<noteq> [])"
  by (simp add: formatPhoneNumber_digits Let_def js_def)

text \<open>
  C3, as amended. For every string of ten digits that does not start with \<open>63\<close>, the
  dialable form is \<open>+1\<close> followed by the digits. (The branch for the prefix \<open>63\<close> is
  tried first, so a ten-digit number starting with \<open>63\<close> gets \<open>+\<close> alone.)
\<close>

theorem formatPhoneNumber_ten_digits:
  assumes "length x = 10" and "list_all isDigit x" and "\<not> startsWith x (js ''63'')"
  shows "formatPhoneNumber (Str x) = Inr (Str (js ''+1'' @ x))"
  using assms
  by (simp add: formatPhoneNumber_digits filter_isDigit_all)

theorem formatPhoneNumber_ten_digits_witness:
  "length (js ''5551234567'') = 10 \<and> list_all isDigit (js ''5551234567'')
   \<and> \<not> startsWith (js ''5551234567'') (js ''63'')
   \<and> formatPhoneNumber (Str (js ''5551234567'')) = Inr (Str (js ''+1'' @ js ''5551234567''))"
proof -
  have h1: "length (js ''5551234567'') = 10"
    by (simp add: js_def)
  have h2: "list_all isDigit (js ''5551234567'')"
    by (simp add: js_def isDigit_def)
  have h3: "\<not> startsWith (js ''5551234567'') (js ''63'')"
    by (simp add: js_def startsWith_def)
  from formatPhoneNumber_ten_digits [OF h1 h2 h3] h1 h2 h3 show ?thesis
    by (intro conjI)
qed

text \<open>
  C3 as the specification states it fails: \<open>6312345678\<close> is a string of ten digits, and
  its dialable form is \<open>+6312345678\<close>, not \<open>+16312345678\<close>.
\<close>

theorem formatPhoneNumber_ten_digits_counterexample:
  "length (js ''6312345678'') = 10 \<and> list_all isDigit (js ''6312345678'')
   \<and> formatPhoneNumber (Str (js ''6312345678'')) = Inr (Str (js ''+6312345678''))
   \<and> formatPhoneNumber (Str (js ''6312345678'')) \<noteq> Inr (Str (js ''+1'' @ js ''6312345678''))"
  by (simp add: formatPhoneNumber_digits js_def isDigit_def startsWith_def)

text \<open>
  C4, as amended. On every string, on \<open>null\<close> and on \<open>undefined\<close> the two functions
  return a value and throw nothing: the tagging key of a non-empty string is the string
  with every non-digit removed, and the tagging key of the empty string, of \<open>null\<close> and
  of \<open>undefined\<close> is \<open>null\<close>, as is the dialable form of these three.
\<close>

theorem formatPhoneNumberForTagging_total:
  "formatPhoneNumberForTagging (Str s) = Inr (if s = [] then Null else Str (filter isDigit s))
   \<and> formatPhoneNumberForTagging Null = Inr Null
   \<and> formatPhoneNumberForTagging Undefined = Inr Null
   \<and> (\<exists>dialable. formatPhoneNumber (Str s) = Inr dialable)
   \<and> formatPhoneNumber (Str []) = Inr Null
   \<and> formatPhoneNumber Null = Inr Null
   \<and> formatPhoneNumber Undefined = Inr Null"
  by (simp add: formatPhoneNumberForTagging_Str formatPhoneNumberForTagging_Null
        formatPhoneNumber_digits)
     (simp add: formatPhoneNumber_def startsWith_def js_def)

text \<open>
  C4 as the specification states it fails: the tagging key of the empty string and of
  \<open>null\<close> is \<open>null\<close>, not the empty string.
\<close>

theorem formatPhoneNumberForTagging_empty_counterexample:
  "formatPhoneNumberForTagging (Str []) \<noteq> Inr (Str [])
   \<and> formatPhoneNumberForTagging Null \<noteq> Inr (Str [])"
  by (simp add: formatPhoneNumberForTagging_Str formatPhoneNumberForTagging_Null)

text \<open>
  C5. For every input string, \<open>formatPhoneNumber\<close> computes the dialable form the way
  the specification's algorithm does: the non-digits are stripped, and the branches are
  tried in the order prefix \<open>63\<close>, length ten, length at least eleven with prefix \<open>1\<close>,
  length at least eleven with prefix \<open>63\<close>, and \<open>null\<close> otherwise.
\<close>

theorem formatPhoneNumber_refines_spec:
  "formatPhoneNumber (Str raw) = Inr (normalize_dialable_spec raw)"
  by (simp add: formatPhoneNumber_digits normalize_dialable_spec_def Let_def)

text \<open>
  C9, as amended. Taking the tagging key twice gives the tagging key, except for a
  non-empty string without any digit: its key is the empty string, whose key is \<open>null\<close>.
  (For a value that is not a string the same holds of its text; a value whose method
  \<open>toString\<close> throws gives the same error in one step and in two.)
\<close>

theorem formatPhoneNumberForTagging_idempotent:
  "((taggingKey_twice x = formatPhoneNumberForTagging x)
     = (\<not> (\<exists>converted. truthy x \<and> toString_method x = Inr converted
            \<and> filter isDigit converted = [])))
   \<and> ((taggingKey_twice (Str s) = formatPhoneNumberForTagging (Str s))
     = (\<not> (s \<noteq> [] \<and> filter isDigit s = [])))"
proof -
  have twice: "(taggingKey_twice x = formatPhoneNumberForTagging x)
     = (\<not> (\<exists>converted. truthy x \<and> toString_method x = Inr converted
            \<and> filter isDigit converted = []))" for x
  proof (cases "truthy x")
    case False
    then show ?thesis
      by (simp add: taggingKey_twice_def formatPhoneNumberForTagging_cases)
  next
    case True
    show ?thesis
    proof (cases "toString_method x")
      case (Inl error)
      with True show ?thesis
        by (simp add: taggingKey_twice_def formatPhoneNumberForTagging_cases)
    next
      case (Inr converted)
      with True show ?thesis
        by (simp add: taggingKey_twice_def formatPhoneNumberForTagging_cases)
    qed
  qed
  from twice [of x] twice [of "Str s"] show ?thesis
    by simp
qed

theorem formatPhoneNumberForTagging_idempotent_witness:
  "formatPhoneNumberForTagging (Str (js ''(555) 123-4567'')) = Inr (Str (js ''5551234567''))
   \<and> taggingKey_twice (Str (js ''(555) 123-4567''))
       = formatPhoneNumberForTagging (Str (js ''(555) 123-4567''))"
proof -
  have k: "formatPhoneNumberForTagging (Str (js ''(555) 123-4567'')) = Inr (Str (js ''5551234567''))"
    by (simp add: formatPhoneNumberForTagging_Str js_def isDigit_def)
  have h: "\<not> (js ''(555) 123-4567'' \<noteq> [] \<and> filter isDigit (js ''(555) 123-4567'') = [])"
    by (simp add: js_def isDigit_def)
  with formatPhoneNumberForTagging_idempotent [of "Str (js ''(555) 123-4567'')" "js ''(555) 123-4567''"]
  have "taggingKey_twice (Str (js ''(555) 123-4567''))
       = formatPhoneNumberForTagging (Str (js ''(555) 123-4567''))"
    by blast
  with k show ?thesis by (rule conjI)
qed

text \<open>
  C9 as the specification states it fails at \<open>abc\<close>: the key is the empty string, and
  the key of the empty string is \<open>null\<close>.
\<close>

theorem formatPhoneNumberForTagging_idempotent_counterexample:
  "formatPhoneNumberForTagging (Str (js ''abc'')) = Inr (Str [])
   \<and> taggingKey_twice (Str (js ''abc'')) = Inr Null
   \<and> taggingKey_twice (Str (js ''abc'')) \<noteq> formatPhoneNumberForTagging (Str (js ''abc''))"
  by (simp add: taggingKey_twice_def formatPhoneNumberForTagging_Str js_def isDigit_def)


section \<open>Properties of the status callback\<close>

lemmas encode_defs = encodeURIComponent_def js_def unreserved_def lead_surrogate_def
  trail_surrogate_def escape_def utf8_def percent_def hex_digit_def then_append_def

lemma busy_tag_encoded:
  "encodeURIComponent (Str busy_tag) = Inr (js ''events%20%E2%86%92%20ve0525flash-call-busy'')"
  by (simp add: busy_tag_def encode_defs)

lemma no_answer_tag_encoded:
  "encodeURIComponent (Str no_answer_tag) = Inr (js ''events%20%E2%86%92%20ve0525flash-call-no-answer'')"
  by (simp add: no_answer_tag_def encode_defs)

lemma fetches_append: "fetches (xs @ ys) = fetches xs @ fetches ys"
  by (induction xs rule: fetches.induct) simp_all

text \<open>
  Once the tag, the tagging key and the name are there, the request to the tagging
  webhook is made, whatever follows it.
\<close>

lemma tag_contact_fetches:
  assumes "encodeURIComponent (Str tagLiteral) = Inr tag"
    and "encodeURIComponent clientName = Inr encodedName"
    and "formatPhoneNumberForTagging (or_else phoneNumber to) = Inr (Str key)"
  shows "fetches (fst (tag_contact w tagLiteral clientName phoneNumber to)) =
           [(GET, tagUrl encodedName key tag)]"
  using assms by (simp add: tag_contact_def Let_def split: sum.splits)

lemma tag_and_log_fetches:
  "fetches (tag_and_log w tagLiteral label clientName phoneNumber to) =
     fetches (fst (tag_contact w tagLiteral clientName phoneNumber to))"
  by (simp add: tag_and_log_def fetches_append split: prod.splits sum.splits)

lemma status_literals:
  "js ''busy'' \<noteq> js ''initiated''" "js ''busy'' \<noteq> js ''ringing''"
  "js ''no-answer'' \<noteq> js ''initiated''" "js ''no-answer'' \<noteq> js ''ringing''"
  "js ''no-answer'' \<noteq> js ''busy''"
  by (simp_all add: js_def)

lemma call_status_busy:
  assumes "body req ''CallStatus'' = Str (js ''busy'')"
    and "ToString (body req ''CallSid'') = Inr sid"
  shows "call_status w req =
           (tag_and_log w busy_tag (js ''Error tagging busy contact:'') (query req ''clientName'')
              (query req ''phoneNumber'') (body req ''To''),
            Inr status_200)"
  using assms by (simp add: call_status_def Let_def status_literals)

lemma call_status_no_answer:
  assumes "body req ''CallStatus'' = Str (js ''no-answer'')"
    and "ToString (body req ''CallSid'') = Inr sid"
  shows "call_status w req =
           (tag_and_log w no_answer_tag (js ''Error tagging no-answer contact:'')
              (query req ''clientName'') (query req ''phoneNumber'') (body req ''To''),
            Inr status_200)"
  using assms by (simp add: call_status_def Let_def status_literals)

text \<open>
  C1, as amended. For a status callback with \<open>CallStatus\<close> equal to \<open>busy\<close>
  (respectively \<open>no-answer\<close>) whose \<open>CallSid\<close> and \<open>clientName\<close> convert to strings and
  whose phone number (the query string's \<open>phoneNumber\<close>, or the body's \<open>To\<close> when the
  query parameter is absent or empty) has a digits-only tagging form, the handler makes
  exactly one request: a \<open>GET\<close> to the tagging webhook whose \<open>phoneNumber\<close> parameter is
  that tagging form and whose \<open>tag\<close> parameter is the URI-encoded tag
  \<open>events \<rightarrow> ve0525flash-call-busy\<close> (respectively
  \<open>events \<rightarrow> ve0525flash-call-no-answer\<close>). The tagging form of a non-empty string is
  its digits.
\<close>

theorem call_status_tagging:
  assumes "ToString (body req ''CallSid'') = Inr sid"
    and "encodeURIComponent (query req ''clientName'') = Inr encodedName"
    and "formatPhoneNumberForTagging (or_else (query req ''phoneNumber'') (body req ''To''))
           = Inr (Str key)"
  shows "busy_tag = js ''events '' @ [0x2192] @ js '' ve0525flash-call-busy''
     \<and> encodeURIComponent (Str busy_tag) = Inr (js ''events%20%E2%86%92%20ve0525flash-call-busy'')
     \<and> no_answer_tag = js ''events '' @ [0x2192] @ js '' ve0525flash-call-no-answer''
     \<and> encodeURIComponent (Str no_answer_tag)
          = Inr (js ''events%20%E2%86%92%20ve0525flash-call-no-answer'')
     \<and> (body req ''CallStatus'' = Str (js ''busy'') \<longrightarrow>
           fetches (fst (call_status w req)) =
             [(GET, tagUrl encodedName key (js ''events%20%E2%86%92%20ve0525flash-call-busy''))])
     \<and> (body req ''CallStatus'' = Str (js ''no-answer'') \<longrightarrow>
           fetches (fst (call_status w req)) =
             [(GET, tagUrl encodedName key (js ''events%20%E2%86%92%20ve0525flash-call-no-answer''))])
     \<and> (\<forall>s. query req ''phoneNumber'' = Str s \<and> s \<noteq> [] \<longrightarrow> key = filter isDigit s)
     \<and> (\<forall>s. \<not> truthy (query req ''phoneNumber'') \<and> body req ''To'' = Str s \<longrightarrow>
           key = filter isDigit s)"
proof -
  have busy: "fetches (fst (call_status w req)) =
        [(GET, tagUrl encodedName key (js ''events%20%E2%86%92%20ve0525flash-call-busy''))]"
    if "body req ''CallStatus'' = Str (js ''busy'')"
    by (simp add: call_status_busy [OF that assms(1)] tag_and_log_fetches
          tag_contact_fetches [OF busy_tag_encoded assms(2) assms(3)])
  have no_answer: "fetches (fst (call_status w req)) =
        [(GET, tagUrl encodedName key (js ''events%20%E2%86%92%20ve0525flash-call-no-answer''))]"
    if "body req ''CallStatus'' = Str (js ''no-answer'')"
    by (simp add: call_status_no_answer [OF that assms(1)] tag_and_log_fetches
          tag_contact_fetches [OF no_answer_tag_encoded assms(2) assms(3)])
  have query_phone: "key = filter isDigit s"
    if "query req ''phoneNumber'' = Str s \<and> s \<noteq> []" for s
    using that assms(3) by (simp add: or_else_def formatPhoneNumberForTagging_Str)
  have fallback: "key = filter isDigit s"
    if "\<not> truthy (query req ''phoneNumber'') \<and> body req ''To'' = Str s" for s
    using that assms(3)
    by (simp add: or_else_def formatPhoneNumberForTagging_Str split: if_splits)
  show ?thesis
    using busy no_answer query_phone fallback
    by (simp add: busy_tag_encoded no_answer_tag_encoded)
       (simp add: busy_tag_def no_answer_tag_def)
qed

lemma busy_request_fields:
  "query busy_request ''clientName'' = Str (js ''Jane'')"
  "query busy_request ''phoneNumber'' = Str (js ''5551234567'')"
  "body busy_request ''CallStatus'' = Str (js ''busy'')"
  "body busy_request ''CallSid'' = Str (js ''CA123'')"
  "body busy_request ''To'' = Str (js ''+15551234567'')"
  by (simp_all add: busy_request_def)

lemma busy_request_key:
  "formatPhoneNumberForTagging
     (or_else (query busy_request ''phoneNumber'') (body busy_request ''To''))
     = Inr (Str (js ''5551234567''))"
  by (simp add: busy_request_fields or_else_def formatPhoneNumberForTagging_Str)
     (simp add: js_def isDigit_def)

lemma busy_url:
  "tagUrl (js ''Jane'') (js ''5551234567'') (js ''events%20%E2%86%92%20ve0525flash-call-busy'')
      = js ''https://tag-ghl-danella.onrender.com/api/contacts?clientName=Jane&phoneNumber=5551234567&tag=events%20%E2%86%92%20ve0525flash-call-busy''"
  by (simp add: tagUrl_def tagging_webhook_def js_def)

text \<open>The scenario of the specification: Jane's line was busy.\<close>

theorem call_status_tagging_witness:
  "ToString (body busy_request ''CallSid'') = Inr (js ''CA123'')
   \<and> encodeURIComponent (query busy_request ''clientName'') = Inr (js ''Jane'')
   \<and> formatPhoneNumberForTagging
        (or_else (query busy_request ''phoneNumber'') (body busy_request ''To''))
       = Inr (Str (js ''5551234567''))
   \<and> body busy_request ''CallStatus'' = Str (js ''busy'')
   \<and> fetches (fst (call_status accepting_world busy_request)) =
       [(GET, js ''https://tag-ghl-danella.onrender.com/api/contacts?clientName=Jane&phoneNumber=5551234567&tag=events%20%E2%86%92%20ve0525flash-call-busy'')]"
proof -
  have c: "ToString (body busy_request ''CallSid'') = Inr (js ''CA123'')"
    by (simp add: busy_request_fields)
  have h: "encodeURIComponent (query busy_request ''clientName'') = Inr (js ''Jane'')"
    by (simp add: busy_request_fields encode_defs)
  have st: "body busy_request ''CallStatus'' = Str (js ''busy'')"
    by (simp add: busy_request_fields)
  from call_status_tagging [OF c h busy_request_key, of accepting_world] st
  have "fetches (fst (call_status accepting_world busy_request)) =
      [(GET, tagUrl (js ''Jane'') (js ''5551234567'') (js ''events%20%E2%86%92%20ve0525flash-call-busy''))]"
    by blast
  with c h st busy_request_key show ?thesis
    by (simp add: busy_url)
qed

text \<open>
  C1 as the specification states it fails in that scenario: the tag sent is not
  \<open>call-busy\<close> but the longer tag that ends with it.
\<close>

theorem call_status_tagging_counterexample:
  "fetches (fst (call_status accepting_world busy_request)) =
     [(GET, tagUrl (js ''Jane'') (js ''5551234567'') (js ''events%20%E2%86%92%20ve0525flash-call-busy''))]
   \<and> fetches (fst (call_status accepting_world busy_request)) \<noteq>
     [(GET, tagUrl (js ''Jane'') (js ''5551234567'') (js ''call-busy''))]"
proof -
  have c: "ToString (body busy_request ''CallSid'') = Inr (js ''CA123'')"
    by (simp add: busy_request_fields)
  have h: "encodeURIComponent (query busy_request ''clientName'') = Inr (js ''Jane'')"
    by (simp add: busy_request_fields encode_defs)
  have st: "body busy_request ''CallStatus'' = Str (js ''busy'')"
    by (simp add: busy_request_fields)
  have eq: "fetches (fst (call_status accepting_world busy_request)) =
     [(GET, tagUrl (js ''Jane'') (js ''5551234567'') (js ''events%20%E2%86%92%20ve0525flash-call-busy''))]"
    by (simp add: call_status_busy [OF st c] tag_and_log_fetches
          tag_contact_fetches [OF busy_tag_encoded h busy_request_key])
  have ne: "tagUrl (js ''Jane'') (js ''5551234567'') (js ''events%20%E2%86%92%20ve0525flash-call-busy'')
      \<noteq> tagUrl (js ''Jane'') (js ''5551234567'') (js ''call-busy'')"
    by (simp add: tagUrl_def js_def)
  from eq ne show ?thesis by simp
qed

text \<open>
  What the handler does by its design: whenever the call identifier and the destination
  convert to strings, the reply is \<open>200\<close>, whatever the status and whatever becomes of
  the tagging; and no reply other than \<open>200\<close> is ever sent.
\<close>

lemma call_status_reply:
  assumes "ToString (body req ''CallSid'') = Inr sid" and "ToString (body req ''To'') = Inr dest"
  shows "snd (call_status w req) = Inr status_200"
  using assms by (simp add: call_status_def Let_def)

lemma call_status_reply_is_200:
  assumes "snd (call_status w req) = Inr answer"
  shows "answer = status_200"
  using assms by (auto simp add: call_status_def Let_def split: if_splits sum.splits)

text \<open>
  C6 fails on the code. The handler's log lines stand outside its \<open>try\<close> blocks, and
  their template literals convert \<open>callSid\<close> to a string. For the JSON body
  \<open>{"CallStatus": "busy", "CallSid": {"toString": null}, "To": "+15551234567"}\<close> the
  conversion at line 610 throws: the handler throws before the tagging request and
  before \<open>res.sendStatus(200)\<close>, so it sends no \<open>200\<close>.
\<close>

theorem call_status_throws_before_200:
  "call_status accepting_world object_sid_request =
     ([], Inl (TypeError (js ''Cannot convert object to primitive value'')))"
  by (simp add: call_status_def Let_def object_sid_request_def status_literals)


section \<open>Properties of sending a message\<close>

lemma messages_append: "messages (xs @ ys) = messages xs @ messages ys"
  by (induction xs rule: messages.induct) simp_all

text \<open>
  C8. When the phone number has no dialable form, \<open>sendSMS\<close> fails with the error
  \<open>SMS send failed: Invalid phone number format\<close> and creates no message. Otherwise it
  creates exactly one message, from the configured sender number to the dialable form,
  through a client with a timeout of 30000 milliseconds and with a maximum price of 0.15;
  it returns the identifier the provider assigns, and when the provider fails it fails
  with the provider's message behind \<open>SMS send failed:\<close>. A phone number that is a
  string always has one of the two outcomes; a value whose conversion to a string throws
  gives the conversion's message behind \<open>SMS send failed:\<close>, and no message.
\<close>

theorem sendSMS_outcomes:
  "(formatPhoneNumber (Str raw) = Inr Null
      \<or> (\<exists>formattedNumber. formatPhoneNumber (Str raw) = Inr (Str formattedNumber)))
   \<and> ((\<exists>error. formatPhoneNumber phoneNumber = Inl error)
      \<or> formatPhoneNumber phoneNumber = Inr Null
      \<or> (\<exists>formattedNumber. formatPhoneNumber phoneNumber = Inr (Str formattedNumber)))
   \<and> (formatPhoneNumber phoneNumber = Inr Null \<longrightarrow>
       messages (fst (sendSMS e w phoneNumber (Str msg))) = []
       \<and> snd (sendSMS e w phoneNumber (Str msg))
           = Inl (Error (js ''SMS send failed: Invalid phone number format'')))
   \<and> (\<forall>formattedNumber. formatPhoneNumber phoneNumber = Inr (Str formattedNumber) \<longrightarrow>
        (let opts = \<lparr>timeout = Some 30000, keepAlive = Some False\<rparr>;
             params = \<lparr>sms_body = Str msg, sms_from = TWILIO_PHONE_NUMBER e,
                       sms_to = Str formattedNumber, attempt = 1, maxPrice = 15 / 100\<rparr>
         in messages (fst (sendSMS e w phoneNumber (Str msg))) = [(opts, params)]
            \<and> (\<forall>sid. messages_create w opts params = Inr sid \<longrightarrow>
                  snd (sendSMS e w phoneNumber (Str msg)) = Inr sid)
            \<and> (\<forall>error. messages_create w opts params = Inl error \<longrightarrow>
                  snd (sendSMS e w phoneNumber (Str msg))
                    = Inl (Error (js ''SMS send failed: '' @ message error)))))
   \<and> (\<forall>error. formatPhoneNumber phoneNumber = Inl error \<longrightarrow>
        messages (fst (sendSMS e w phoneNumber (Str msg))) = []
        \<and> snd (sendSMS e w phoneNumber (Str msg))
            = Inl (Error (js ''SMS send failed: '' @ message error)))"
proof -
  let ?sent = "sendSMS e w phoneNumber (Str msg)"
  have invalid: "js ''SMS send failed: '' @ js ''Invalid phone number format''
      = js ''SMS send failed: Invalid phone number format''"
    by (simp add: js_def)
  have strings: "formatPhoneNumber (Str raw) = Inr Null
      \<or> (\<exists>formattedNumber. formatPhoneNumber (Str raw) = Inr (Str formattedNumber))"
    using formatPhoneNumber_string_cases [of raw] by blast
  have outcomes: "(\<exists>error. formatPhoneNumber phoneNumber = Inl error)
      \<or> formatPhoneNumber phoneNumber = Inr Null
      \<or> (\<exists>formattedNumber. formatPhoneNumber phoneNumber = Inr (Str formattedNumber))"
    using formatPhoneNumber_cases [of phoneNumber] by blast
  have none: "formatPhoneNumber phoneNumber = Inr Null \<longrightarrow>
       messages (fst ?sent) = []
       \<and> snd ?sent = Inl (Error (js ''SMS send failed: Invalid phone number format''))"
    by (simp add: sendSMS_def sendSMS_try_def invalid)
  have dialable: "\<forall>formattedNumber. formatPhoneNumber phoneNumber = Inr (Str formattedNumber) \<longrightarrow>
        (let opts = \<lparr>timeout = Some 30000, keepAlive = Some False\<rparr>;
             params = \<lparr>sms_body = Str msg, sms_from = TWILIO_PHONE_NUMBER e,
                       sms_to = Str formattedNumber, attempt = 1, maxPrice = 15 / 100\<rparr>
         in messages (fst ?sent) = [(opts, params)]
            \<and> (\<forall>sid. messages_create w opts params = Inr sid \<longrightarrow> snd ?sent = Inr sid)
            \<and> (\<forall>error. messages_create w opts params = Inl error \<longrightarrow>
                  snd ?sent = Inl (Error (js ''SMS send failed: '' @ message error))))"
  proof (intro allI impI)
    fix formattedNumber
    assume d: "formatPhoneNumber phoneNumber = Inr (Str formattedNumber)"
    with formatPhoneNumber_cases [of phoneNumber] have "formattedNumber \<noteq> []"
      by auto
    with d show "let opts = \<lparr>timeout = Some 30000, keepAlive = Some False\<rparr>;
             params = \<lparr>sms_body = Str msg, sms_from = TWILIO_PHONE_NUMBER e,
                       sms_to = Str formattedNumber, attempt = 1, maxPrice = 15 / 100\<rparr>
         in messages (fst ?sent) = [(opts, params)]
            \<and> (\<forall>sid. messages_create w opts params = Inr sid \<longrightarrow> snd ?sent = Inr sid)
            \<and> (\<forall>error. messages_create w opts params = Inl error \<longrightarrow>
                  snd ?sent = Inl (Error (js ''SMS send failed: '' @ message error)))"
      by (auto simp add: sendSMS_def sendSMS_try_def Let_def messages_append split: sum.splits)
  qed
  have throws: "\<forall>error. formatPhoneNumber phoneNumber = Inl error \<longrightarrow>
        messages (fst ?sent) = []
        \<and> snd ?sent = Inl (Error (js ''SMS send failed: '' @ message error))"
    by (simp add: sendSMS_def sendSMS_try_def)
  from strings outcomes none dialable throws show ?thesis
    by (intro conjI)
qed

lemma dialable_5551234567:
  "formatPhoneNumber (Str (js ''5551234567'')) = Inr (Str (js ''+15551234567''))"
  by (simp add: formatPhoneNumber_digits js_def isDigit_def startsWith_def)

lemma dialable_12345:
  "formatPhoneNumber (Str (js ''12345'')) = Inr Null"
  by (simp add: formatPhoneNumber_digits js_def isDigit_def startsWith_def)

text \<open>An invalid number, a message the provider accepts, and one it rejects.\<close>

theorem sendSMS_outcomes_witness:
  "formatPhoneNumber (Str (js ''12345'')) = Inr Null
   \<and> messages (fst (sendSMS example_env accepting_world (Str (js ''12345'')) (Str (js ''See you at 4pm'')))) = []
   \<and> snd (sendSMS example_env accepting_world (Str (js ''12345'')) (Str (js ''See you at 4pm'')))
       = Inl (Error (js ''SMS send failed: Invalid phone number format''))
   \<and> formatPhoneNumber (Str (js ''5551234567'')) = Inr (Str (js ''+15551234567''))
   \<and> messages (fst (sendSMS example_env accepting_world (Str (js ''5551234567'')) (Str (js ''See you at 4pm''))))
       = [(\<lparr>timeout = Some 30000, keepAlive = Some False\<rparr>,
           \<lparr>sms_body = Str (js ''See you at 4pm''), sms_from = js ''+15550001111'',
            sms_to = Str (js ''+15551234567''), attempt = 1, maxPrice = 15 / 100\<rparr>)]
   \<and> snd (sendSMS example_env accepting_world (Str (js ''5551234567'')) (Str (js ''See you at 4pm'')))
       = Inr (js ''SM123'')
   \<and> snd (sendSMS example_env failing_world (Str (js ''5551234567'')) (Str (js ''See you at 4pm'')))
       = Inl (Error (js ''SMS send failed: carrier rejected''))
   \<and> formatPhoneNumber (Obj [''toString'' \<mapsto> Null]) = Inl (TypeError (js ''toString is not a function''))
   \<and> messages (fst (sendSMS example_env accepting_world (Obj [''toString'' \<mapsto> Null]) (Str (js ''See you at 4pm'')))) = []
   \<and> snd (sendSMS example_env accepting_world (Obj [''toString'' \<mapsto> Null]) (Str (js ''See you at 4pm'')))
       = Inl (Error (js ''SMS send failed: toString is not a function''))"
proof -
  have m: "js ''SMS send failed: '' @ js ''carrier rejected'' = js ''SMS send failed: carrier rejected''"
    "js ''SMS send failed: '' @ js ''toString is not a function''
       = js ''SMS send failed: toString is not a function''"
    by (simp_all add: js_def)
  have from_number: "TWILIO_PHONE_NUMBER example_env = js ''+15550001111''"
    by (simp add: example_env_def)
  have a: "\<And>opts params. messages_create accepting_world opts params = Inr (js ''SM123'')"
    by (simp add: accepting_world_def)
  have f: "\<And>opts params. messages_create failing_world opts params = Inl (Error (js ''carrier rejected''))"
    by (simp add: failing_world_def)
  have o: "formatPhoneNumber (Obj [''toString'' \<mapsto> Null]) = Inl (TypeError (js ''toString is not a function''))"
    by (simp add: formatPhoneNumber_def)
  from sendSMS_outcomes [of _ "Str (js ''12345'')" example_env accepting_world "js ''See you at 4pm''"]
  have 1: "messages (fst (sendSMS example_env accepting_world (Str (js ''12345'')) (Str (js ''See you at 4pm'')))) = []
     \<and> snd (sendSMS example_env accepting_world (Str (js ''12345'')) (Str (js ''See you at 4pm'')))
       = Inl (Error (js ''SMS send failed: Invalid phone number format''))"
    by (simp add: dialable_12345)
  from sendSMS_outcomes [of _ "Str (js ''5551234567'')" example_env accepting_world "js ''See you at 4pm''"]
  have 2: "messages (fst (sendSMS example_env accepting_world (Str (js ''5551234567'')) (Str (js ''See you at 4pm''))))
       = [(\<lparr>timeout = Some 30000, keepAlive = Some False\<rparr>,
           \<lparr>sms_body = Str (js ''See you at 4pm''), sms_from = js ''+15550001111'',
            sms_to = Str (js ''+15551234567''), attempt = 1, maxPrice = 15 / 100\<rparr>)]
     \<and> snd (sendSMS example_env accepting_world (Str (js ''5551234567'')) (Str (js ''See you at 4pm'')))
       = Inr (js ''SM123'')"
    by (simp add: dialable_5551234567 Let_def a from_number)
  from sendSMS_outcomes [of _ "Str (js ''5551234567'')" example_env failing_world "js ''See you at 4pm''"]
  have 3: "snd (sendSMS example_env failing_world (Str (js ''5551234567'')) (Str (js ''See you at 4pm'')))
       = Inl (Error (js ''SMS send failed: carrier rejected''))"
    by (simp add: dialable_5551234567 Let_def f m)
  from sendSMS_outcomes [of _ "Obj [''toString'' \<mapsto> Null]" example_env accepting_world "js ''See you at 4pm''"]
  have 4: "messages (fst (sendSMS example_env accepting_world (Obj [''toString'' \<mapsto> Null]) (Str (js ''See you at 4pm'')))) = []
   \<and> snd (sendSMS example_env accepting_world (Obj [''toString'' \<mapsto> Null]) (Str (js ''See you at 4pm'')))
       = Inl (Error (js ''SMS send failed: toString is not a function''))"
    by (simp add: o m)
  from 1 2 3 4 show ?thesis
    by (simp add: dialable_12345 dialable_5551234567 o)
qed


section \<open>Properties of placing a call\<close>

lemma calls_append: "calls (xs @ ys) = calls xs @ calls ys"
  by (induction xs rule: calls.induct) simp_all

text \<open>The error that a response of the voice provider that is not ok turns into.\<close>

lemma createUltravoxCall_failure:
  assumes "fetch w POST ultravox_calls = Inr response" and "\<not> ok response"
    and "interpolate [clientName, userType, phoneNumber] = Inr logged"
  shows "createUltravoxCall w clientName phoneNumber userType =
     ([Fetch POST ultravox_calls, ConsoleError (js ''Error creating Ultravox call:'')],
      Inl (case resp_text response of
             Inl error \<Rightarrow> error
           | Inr errorText \<Rightarrow>
               Error (js ''Ultravox API error: '' @ show_nat (status response) @ js '' ''
                      @ statusText response @ js '' - '' @ errorText)))"
  using assms
  by (simp add: createUltravoxCall_def createUltravoxCall_try_def split: sum.splits)

lemma initiateCall_failure:
  assumes "fetch w POST ultravox_calls = Inr response" and "\<not> ok response"
  shows "initiateCall e w clientName phoneNumber userType =
     (case interpolate [clientName, userType, phoneNumber] of
        Inl error \<Rightarrow> ([ConsoleError (js ''Error initiating call:'')], Inl error)
      | Inr logged \<Rightarrow>
          ([Fetch POST ultravox_calls, ConsoleError (js ''Error creating Ultravox call:''),
            ConsoleError (js ''Error initiating call:'')],
           Inl (case resp_text response of
                  Inl error \<Rightarrow> error
                | Inr errorText \<Rightarrow>
                    Error (js ''Ultravox API error: '' @ show_nat (status response) @ js '' ''
                           @ statusText response @ js '' - '' @ errorText))))"
proof (cases "interpolate [clientName, userType, phoneNumber]")
  case (Inl error)
  then show ?thesis
    by (simp add: initiateCall_def initiateCall_try_def)
next
  case (Inr logged)
  then show ?thesis
    by (simp add: initiateCall_def initiateCall_try_def
          createUltravoxCall_failure [OF assms Inr])
qed

lemma createUltravoxCall_calls:
  "calls (fst (createUltravoxCall w clientName phoneNumber userType)) = []"
  by (simp add: createUltravoxCall_def createUltravoxCall_try_def split: sum.splits)

lemma createUltravoxCall_success:
  assumes "createUltravoxCall w clientName phoneNumber userType = (effs, Inr data)"
  shows "effs = [Fetch POST ultravox_calls]
     \<and> (\<exists>response. fetch w POST ultravox_calls = Inr response \<and> ok response)"
  using assms
  by (auto simp add: createUltravoxCall_def createUltravoxCall_try_def
        split: sum.splits if_splits)

lemma createUltravoxCall_error:
  assumes "createUltravoxCall w clientName phoneNumber userType = (effs, Inl error)"
  shows "calls effs = []"
  using assms createUltravoxCall_calls [of w clientName phoneNumber userType] by simp

lemma initiateCall_session_first:
  assumes "calls (fst (initiateCall e w clientName phoneNumber userType)) \<noteq> []"
  shows "(\<exists>response. fetch w POST ultravox_calls = Inr response \<and> ok response)
     \<and> (\<exists>rest. fst (initiateCall e w clientName phoneNumber userType) = Fetch POST ultravox_calls # rest)"
proof (cases "interpolate [clientName, userType, phoneNumber]")
  case (Inl error)
  with assms show ?thesis
    by (simp add: initiateCall_def initiateCall_try_def)
next
  case logged: (Inr logged)
  obtain effs r where c: "createUltravoxCall w clientName phoneNumber userType = (effs, r)"
    by (cases "createUltravoxCall w clientName phoneNumber userType")
  show ?thesis
  proof (cases r)
    case (Inl error)
    with c have "calls effs = []"
      by (simp add: createUltravoxCall_error)
    with assms c Inl logged show ?thesis
      by (simp add: initiateCall_def initiateCall_try_def calls_append)
  next
    case (Inr data)
    with c have "effs = [Fetch POST ultravox_calls]"
      and "\<exists>response. fetch w POST ultravox_calls = Inr response \<and> ok response"
      using createUltravoxCall_success by blast+
    with c Inr logged show ?thesis
      by (simp add: initiateCall_def initiateCall_try_def Let_def split: sum.splits)
  qed
qed

lemma initiateCall_calls:
  assumes "(opts, params) \<in> set (calls (fst (initiateCall e w clientName phoneNumber userType)))"
  shows "\<exists>encodedName encodedPhone.
      encodeURIComponent clientName = Inr encodedName
    \<and> encodeURIComponent phoneNumber = Inr encodedPhone
    \<and> call_to params = phoneNumber
    \<and> statusCallback params = statusCallbackUrl (getServerBaseUrl e) encodedName encodedPhone"
proof -
  obtain effs r where c: "createUltravoxCall w clientName phoneNumber userType = (effs, r)"
    by (cases "createUltravoxCall w clientName phoneNumber userType")
  then have none: "calls effs = []"
    using createUltravoxCall_calls [of w clientName phoneNumber userType] by simp
  from assms show ?thesis
    by (auto simp add: initiateCall_def initiateCall_try_def c none calls_append Let_def
          split: sum.splits prod.splits)
qed

text \<open>The effects and the reply of \<open>handleCall\<close> once the request has passed its checks.\<close>

lemma formatPhoneNumber_truthy:
  assumes "formatPhoneNumber phoneNumber = Inr formattedNumber" and "truthy formattedNumber"
  shows "truthy phoneNumber"
proof (rule ccontr)
  assume "\<not> truthy phoneNumber"
  then have "formatPhoneNumber phoneNumber = Inr Null"
    by (simp add: formatPhoneNumber_def)
  with assms show False by simp
qed

lemma handleCall_valid:
  assumes "truthy (or_else (query req ''clientName'') (body req ''clientName''))"
    and "formatPhoneNumber (or_else (query req ''phoneNumber'') (body req ''phoneNumber''))
           = Inr formattedNumber"
    and "truthy formattedNumber"
  shows "handleCall e w req =
     (case initiateCall e w (or_else (query req ''clientName'') (body req ''clientName''))
             formattedNumber
             (or_else (or_else (query req ''userType'') (body req ''userType'')) (Str (js ''non-VIP''))) of
        (effs, Inr callSid) \<Rightarrow>
          (effs, \<lparr>code = 200, content = Json [(''success'', Bool True),
             (''message'', Str (js ''Call initiated successfully'')),
             (''callSid'', Str callSid)]\<rparr>)
      | (effs, Inl error) \<Rightarrow>
          (effs @ [ConsoleError (js ''Error in handleCall:'')],
           \<lparr>code = 500, content = Json [(''error'', Str (js ''Failed to initiate call'')),
             (''message'', Str (message error))]\<rparr>))"
proof -
  have "truthy (or_else (query req ''phoneNumber'') (body req ''phoneNumber''))"
    using assms(2,3) by (rule formatPhoneNumber_truthy)
  with assms show ?thesis
    by (simp add: handleCall_def handleCall_try_def Let_def split: prod.splits sum.splits)
qed

text \<open>Before that, \<open>handleCall\<close> makes no request at all.\<close>

lemma handleCall_invalid:
  assumes "\<not> (truthy (or_else (query req ''clientName'') (body req ''clientName''))
      \<and> (\<exists>formattedNumber.
            formatPhoneNumber (or_else (query req ''phoneNumber'') (body req ''phoneNumber''))
              = Inr formattedNumber \<and> truthy formattedNumber))"
  shows "fetches (fst (handleCall e w req)) = [] \<and> calls (fst (handleCall e w req)) = []"
proof (cases "formatPhoneNumber (or_else (query req ''phoneNumber'') (body req ''phoneNumber''))")
  case (Inl error)
  then show ?thesis
    by (simp add: handleCall_def handleCall_try_def Let_def)
next
  case (Inr formattedNumber)
  with assms have "\<not> truthy (or_else (query req ''clientName'') (body req ''clientName''))
      \<or> \<not> truthy formattedNumber"
    by simp
  with Inr show ?thesis
    by (auto simp add: handleCall_def handleCall_try_def Let_def)
qed


lemma initiate_request_fields:
  "or_else (query initiate_request ''clientName'') (body initiate_request ''clientName'') = Str (js ''Jane'')"
  "or_else (query initiate_request ''phoneNumber'') (body initiate_request ''phoneNumber'') = Str (js ''(555) 123-4567'')"
  "or_else (or_else (query initiate_request ''userType'') (body initiate_request ''userType'')) (Str (js ''non-VIP''))
     = Str (js ''non-VIP'')"
  by (simp_all add: initiate_request_def or_else_def no_fields_def js_def)

lemma dialable_written:
  "formatPhoneNumber (Str (js ''(555) 123-4567'')) = Inr (Str (js ''+15551234567''))"
  by (simp add: formatPhoneNumber_digits js_def isDigit_def startsWith_def)

lemma base_url: "getServerBaseUrl example_env = js ''https://calls.example.com''"
  by (simp add: getServerBaseUrl_def example_env_def js_def)

lemma initiate_request_valid:
  "truthy (or_else (query initiate_request ''clientName'') (body initiate_request ''clientName''))"
  "formatPhoneNumber (or_else (query initiate_request ''phoneNumber'') (body initiate_request ''phoneNumber''))
     = Inr (Str (js ''+15551234567''))"
  "truthy (Str (js ''+15551234567''))"
  by (simp_all add: initiate_request_fields dialable_written) (simp_all add: js_def)

lemma handleCall_failing:
  "handleCall example_env failing_world initiate_request =
     ([Fetch POST ultravox_calls, ConsoleError (js ''Error creating Ultravox call:''),
       ConsoleError (js ''Error initiating call:''), ConsoleError (js ''Error in handleCall:'')],
      \<lparr>code = 500,
       content = Json [(''error'', Str (js ''Failed to initiate call'')),
          (''message'', Str (js ''Ultravox API error: 500 Internal Server Error - upstream exploded''))]\<rparr>)"
proof -
  have r: "fetch failing_world POST ultravox_calls =
      Inr \<lparr>ok = False, status = 500, statusText = js ''Internal Server Error'',
           resp_text = Inr (js ''upstream exploded''),
           resp_json = Inl (Error (js ''Unexpected token''))\<rparr>"
    by (simp add: failing_world_def)
  have m: "js ''Ultravox API error: '' @ show_nat 500 @ js '' '' @ js ''Internal Server Error''
      @ js '' - '' @ js ''upstream exploded''
      = js ''Ultravox API error: 500 Internal Server Error - upstream exploded''"
    by (simp add: js_def show_nat.simps)
  show ?thesis
    using m
    by (simp add: handleCall_valid [OF initiate_request_valid] initiate_request_fields
          initiateCall_failure [OF r])
qed

lemma handleCall_accepting:
  "handleCall example_env accepting_world initiate_request =
     ([Fetch POST ultravox_calls,
       CallsCreate \<lparr>timeout = None, keepAlive = None\<rparr>
         \<lparr>twiml = js ''<Response><Connect><Stream url='' @ [0x22] @ js ''wss://voice.example/join''
                    @ [0x22] @ js ''/></Connect></Response>'',
          call_to = Str (js ''+15551234567''),
          call_from = js ''+15550001111'',
          statusCallback = js ''https://calls.example.com/call-status?clientName=Jane&phoneNumber=%2B15551234567'',
          statusCallbackEvent = [js ''initiated'', js ''ringing'', js ''answered'', js ''completed''],
          statusCallbackMethod = js ''POST''\<rparr>],
      \<lparr>code = 200,
       content = Json [(''success'', Bool True),
                       (''message'', Str (js ''Call initiated successfully'')),
                       (''callSid'', Str (js ''CA123''))]\<rparr>)"
proof -
  have n: "encodeURIComponent (Str (js ''Jane'')) = Inr (js ''Jane'')"
    by (simp add: encode_defs)
  have p: "encodeURIComponent (Str (js ''+15551234567'')) = Inr (js ''%2B15551234567'')"
    by (simp add: encode_defs)
  have u: "statusCallbackUrl (js ''https://calls.example.com'') (js ''Jane'') (js ''%2B15551234567'')
      = js ''https://calls.example.com/call-status?clientName=Jane&phoneNumber=%2B15551234567''"
    by (simp add: statusCallbackUrl_def js_def)
  have c: "createUltravoxCall accepting_world (Str (js ''Jane'')) (Str (js ''+15551234567'')) (Str (js ''non-VIP''))
      = ([Fetch POST ultravox_calls], Inr (Obj [''joinUrl'' \<mapsto> Str (js ''wss://voice.example/join'')]))"
    by (simp add: createUltravoxCall_def createUltravoxCall_try_def accepting_world_def)
  have i: "initiateCall example_env accepting_world (Str (js ''Jane'')) (Str (js ''+15551234567'')) (Str (js ''non-VIP''))
      = ([Fetch POST ultravox_calls,
       CallsCreate \<lparr>timeout = None, keepAlive = None\<rparr>
         \<lparr>twiml = js ''<Response><Connect><Stream url='' @ [0x22] @ js ''wss://voice.example/join''
                    @ [0x22] @ js ''/></Connect></Response>'',
          call_to = Str (js ''+15551234567''),
          call_from = js ''+15550001111'',
          statusCallback = js ''https://calls.example.com/call-status?clientName=Jane&phoneNumber=%2B15551234567'',
          statusCallbackEvent = [js ''initiated'', js ''ringing'', js ''answered'', js ''completed''],
          statusCallbackMethod = js ''POST''\<rparr>], Inr (js ''CA123''))"
    by (simp add: initiateCall_def initiateCall_try_def c n p u base_url Let_def)
       (simp add: accepting_world_def example_env_def)
  show ?thesis
    by (simp add: handleCall_valid [OF initiate_request_valid] initiate_request_fields i)
qed

text \<open>
  C7. A call is created only after the session request, and only when the voice provider
  answered it with success. When the provider answers with a status that is not a
  success, \<open>/initiate-call\<close> creates no call; and whenever the session request was made,
  the reply is \<open>500\<close>, with a message that carries the provider's status and, when the
  body of the provider's answer can be read, ends with its text.
\<close>

theorem session_failure_gives_500:
  "(calls (fst (handleCall e w req)) \<noteq> [] \<longrightarrow>
      (\<exists>response. fetch w POST ultravox_calls = Inr response \<and> ok response)
      \<and> (\<exists>rest. fst (handleCall e w req) = Fetch POST ultravox_calls # rest))
   \<and> (\<forall>response. fetch w POST ultravox_calls = Inr response \<and> \<not> ok response \<longrightarrow>
        calls (fst (handleCall e w req)) = []
        \<and> ((POST, ultravox_calls) \<in> set (fetches (fst (handleCall e w req))) \<longrightarrow>
             code (snd (handleCall e w req)) = 500
             \<and> (\<forall>errorText. resp_text response = Inr errorText \<longrightarrow>
                   content (snd (handleCall e w req)) =
                     Json [(''error'', Str (js ''Failed to initiate call'')),
                           (''message'', Str (js ''Ultravox API error: '' @ show_nat (status response)
                              @ js '' '' @ statusText response @ js '' - '' @ errorText))])))"
proof -
  let ?clientName = "or_else (query req ''clientName'') (body req ''clientName'')"
  let ?phoneNumber = "or_else (query req ''phoneNumber'') (body req ''phoneNumber'')"
  let ?userType = "or_else (or_else (query req ''userType'') (body req ''userType'')) (Str (js ''non-VIP''))"
  show ?thesis
  proof (cases "truthy ?clientName \<and> (\<exists>formattedNumber.
            formatPhoneNumber ?phoneNumber = Inr formattedNumber \<and> truthy formattedNumber)")
    case False
    then have "fetches (fst (handleCall e w req)) = [] \<and> calls (fst (handleCall e w req)) = []"
      by (rule handleCall_invalid)
    then show ?thesis by simp
  next
    case True
    then obtain formattedNumber where valid: "truthy ?clientName"
      "formatPhoneNumber ?phoneNumber = Inr formattedNumber" "truthy formattedNumber"
      by blast
    let ?i = "initiateCall e w ?clientName formattedNumber ?userType"
    note h = handleCall_valid [OF valid, of e w]
    have first: "(\<exists>response. fetch w POST ultravox_calls = Inr response \<and> ok response)
        \<and> (\<exists>rest. fst (handleCall e w req) = Fetch POST ultravox_calls # rest)"
      if c: "calls (fst (handleCall e w req)) \<noteq> []"
    proof -
      from c have ci: "calls (fst ?i) \<noteq> []"
        by (auto simp add: h calls_append split: prod.splits sum.splits)
      from initiateCall_session_first [OF ci]
      have s: "\<exists>response. fetch w POST ultravox_calls = Inr response \<and> ok response"
        and t: "\<exists>rest. fst ?i = Fetch POST ultravox_calls # rest"
        by blast+
      from t have "\<exists>rest. fst (handleCall e w req) = Fetch POST ultravox_calls # rest"
        by (auto simp add: h split: prod.splits sum.splits)
      with s show ?thesis by blast
    qed
    have failure: "calls (fst (handleCall e w req)) = []
        \<and> ((POST, ultravox_calls) \<in> set (fetches (fst (handleCall e w req))) \<longrightarrow>
             code (snd (handleCall e w req)) = 500
             \<and> (\<forall>errorText. resp_text response = Inr errorText \<longrightarrow>
                   content (snd (handleCall e w req)) =
                     Json [(''error'', Str (js ''Failed to initiate call'')),
                           (''message'', Str (js ''Ultravox API error: '' @ show_nat (status response)
                              @ js '' '' @ statusText response @ js '' - '' @ errorText))]))"
      if a: "fetch w POST ultravox_calls = Inr response \<and> \<not> ok response" for response
    proof -
      from a have f: "fetch w POST ultravox_calls = Inr response" and n: "\<not> ok response"
        by simp_all
      show ?thesis
        by (simp add: h initiateCall_failure [OF f n] split: sum.splits)
    qed
    from first failure show ?thesis by blast
  qed
qed

text \<open>
  The voice provider answers \<open>500\<close> with the text \<open>upstream exploded\<close>; and, for the
  order of the two requests, a world where every request succeeds.
\<close>

theorem session_failure_gives_500_witness:
  "fetch failing_world POST ultravox_calls =
      Inr \<lparr>ok = False, status = 500, statusText = js ''Internal Server Error'',
           resp_text = Inr (js ''upstream exploded''),
           resp_json = Inl (Error (js ''Unexpected token''))\<rparr>
   \<and> (POST, ultravox_calls) \<in> set (fetches (fst (handleCall example_env failing_world initiate_request)))
   \<and> calls (fst (handleCall example_env failing_world initiate_request)) = []
   \<and> code (snd (handleCall example_env failing_world initiate_request)) = 500
   \<and> content (snd (handleCall example_env failing_world initiate_request)) =
       Json [(''error'', Str (js ''Failed to initiate call'')),
             (''message'', Str (js ''Ultravox API error: 500 Internal Server Error - upstream exploded''))]
   \<and> calls (fst (handleCall example_env accepting_world initiate_request)) \<noteq> []
   \<and> (\<exists>rest. fst (handleCall example_env accepting_world initiate_request) = Fetch POST ultravox_calls # rest)"
proof -
  let ?response = "\<lparr>ok = False, status = 500, statusText = js ''Internal Server Error'',
           resp_text = Inr (js ''upstream exploded''),
           resp_json = Inl (Error (js ''Unexpected token''))\<rparr>"
  have r: "fetch failing_world POST ultravox_calls = Inr ?response"
    by (simp add: failing_world_def)
  have f: "(POST, ultravox_calls) \<in> set (fetches (fst (handleCall example_env failing_world initiate_request)))"
    by (simp add: handleCall_failing)
  have m: "js ''Ultravox API error: '' @ show_nat 500 @ js '' '' @ js ''Internal Server Error''
      @ js '' - '' @ js ''upstream exploded''
      = js ''Ultravox API error: 500 Internal Server Error - upstream exploded''"
    by (simp add: js_def show_nat.simps)
  have c: "calls (fst (handleCall example_env accepting_world initiate_request)) \<noteq> []"
    by (simp add: handleCall_accepting)
  from session_failure_gives_500 [of example_env failing_world initiate_request] r f m
  have 1: "calls (fst (handleCall example_env failing_world initiate_request)) = []
    \<and> code (snd (handleCall example_env failing_world initiate_request)) = 500
    \<and> content (snd (handleCall example_env failing_world initiate_request)) =
       Json [(''error'', Str (js ''Failed to initiate call'')),
             (''message'', Str (js ''Ultravox API error: 500 Internal Server Error - upstream exploded''))]"
    by simp
  from session_failure_gives_500 [of example_env accepting_world initiate_request] c
  have 2: "\<exists>rest. fst (handleCall example_env accepting_world initiate_request) = Fetch POST ultravox_calls # rest"
    by blast
  from 1 2 r f c show ?thesis by simp
qed

text \<open>
  C2, as amended. For every call that \<open>/initiate-call\<close> creates, the status callback URL
  is the server's base URL followed by \<open>/call-status\<close> with the query parameters
  \<open>clientName\<close>, the URI-encoded name of the request, and \<open>phoneNumber\<close>, the URI-encoded
  dialable form of the request's phone number (the number it dials), not the phone string
  as the request supplied it.
\<close>

theorem status_callback_embeds_formatted_phone:
  assumes "(opts, params) \<in> set (calls (fst (handleCall e w req)))"
  shows "\<exists>formattedNumber encodedName encodedPhone.
      formatPhoneNumber (or_else (query req ''phoneNumber'') (body req ''phoneNumber''))
        = Inr formattedNumber
    \<and> encodeURIComponent (or_else (query req ''clientName'') (body req ''clientName'')) = Inr encodedName
    \<and> encodeURIComponent formattedNumber = Inr encodedPhone
    \<and> call_to params = formattedNumber
    \<and> statusCallback params =
        getServerBaseUrl e @ js ''/call-status?clientName='' @ encodedName
          @ js ''&phoneNumber='' @ encodedPhone"
proof -
  let ?clientName = "or_else (query req ''clientName'') (body req ''clientName'')"
  let ?phoneNumber = "or_else (query req ''phoneNumber'') (body req ''phoneNumber'')"
  let ?userType = "or_else (or_else (query req ''userType'') (body req ''userType'')) (Str (js ''non-VIP''))"
  have "truthy ?clientName \<and> (\<exists>formattedNumber.
            formatPhoneNumber ?phoneNumber = Inr formattedNumber \<and> truthy formattedNumber)"
  proof (rule ccontr)
    assume "\<not> ?thesis"
    then have "calls (fst (handleCall e w req)) = []"
      using handleCall_invalid by blast
    with assms show False by simp
  qed
  then obtain formattedNumber where valid: "truthy ?clientName"
    "formatPhoneNumber ?phoneNumber = Inr formattedNumber" "truthy formattedNumber"
    by blast
  from assms have "(opts, params) \<in> set (calls (fst
      (initiateCall e w ?clientName formattedNumber ?userType)))"
    by (auto simp add: handleCall_valid [OF valid] calls_append split: prod.splits sum.splits)
  from initiateCall_calls [OF this] valid(2) show ?thesis
    by (simp add: statusCallbackUrl_def)
qed


text \<open>A call to Jane at \<open>(555) 123-4567\<close>, which every outside service accepts.\<close>

theorem status_callback_embeds_formatted_phone_witness:
  "(\<lparr>timeout = None, keepAlive = None\<rparr>,
    \<lparr>twiml = js ''<Response><Connect><Stream url='' @ [0x22] @ js ''wss://voice.example/join''
                    @ [0x22] @ js ''/></Connect></Response>'',
     call_to = Str (js ''+15551234567''),
     call_from = js ''+15550001111'',
     statusCallback = js ''https://calls.example.com/call-status?clientName=Jane&phoneNumber=%2B15551234567'',
     statusCallbackEvent = [js ''initiated'', js ''ringing'', js ''answered'', js ''completed''],
     statusCallbackMethod = js ''POST''\<rparr>)
     \<in> set (calls (fst (handleCall example_env accepting_world initiate_request)))
   \<and> formatPhoneNumber
         (or_else (query initiate_request ''phoneNumber'') (body initiate_request ''phoneNumber''))
       = Inr (Str (js ''+15551234567''))
   \<and> encodeURIComponent (or_else (query initiate_request ''clientName'') (body initiate_request ''clientName''))
       = Inr (js ''Jane'')
   \<and> encodeURIComponent (Str (js ''+15551234567'')) = Inr (js ''%2B15551234567'')
   \<and> js ''https://calls.example.com/call-status?clientName=Jane&phoneNumber=%2B15551234567''
       = getServerBaseUrl example_env @ js ''/call-status?clientName='' @ js ''Jane''
           @ js ''&phoneNumber='' @ js ''%2B15551234567''"
proof -
  let ?opts = "\<lparr>timeout = None, keepAlive = None\<rparr>"
  let ?params = "\<lparr>twiml = js ''<Response><Connect><Stream url='' @ [0x22] @ js ''wss://voice.example/join''
                    @ [0x22] @ js ''/></Connect></Response>'',
     call_to = Str (js ''+15551234567''),
     call_from = js ''+15550001111'',
     statusCallback = js ''https://calls.example.com/call-status?clientName=Jane&phoneNumber=%2B15551234567'',
     statusCallbackEvent = [js ''initiated'', js ''ringing'', js ''answered'', js ''completed''],
     statusCallbackMethod = js ''POST''\<rparr>"
  have mem: "(?opts, ?params) \<in> set (calls (fst (handleCall example_env accepting_world initiate_request)))"
    by (simp add: handleCall_accepting)
  have n: "encodeURIComponent (Str (js ''Jane'')) = Inr (js ''Jane'')"
    by (simp add: encode_defs)
  have p: "encodeURIComponent (Str (js ''+15551234567'')) = Inr (js ''%2B15551234567'')"
    by (simp add: encode_defs)
  from status_callback_embeds_formatted_phone [OF mem] mem show ?thesis
    by (auto simp add: initiate_request_fields dialable_written n p)
qed

text \<open>
  C2 as the specification states it fails for that call: the request supplied
  \<open>(555) 123-4567\<close>, and the callback URL carries \<open>%2B15551234567\<close>, which is neither
  the supplied string nor its URI-encoded form.
\<close>

theorem status_callback_raw_phone_counterexample:
  "map (statusCallback \<circ> snd)
       (calls (fst (handleCall example_env accepting_world initiate_request)))
     = [js ''https://calls.example.com/call-status?clientName=Jane&phoneNumber=%2B15551234567'']
   \<and> query initiate_request ''phoneNumber'' = Str (js ''(555) 123-4567'')
   \<and> encodeURIComponent (Str (js ''(555) 123-4567'')) = Inr (js ''(555)%20123-4567'')
   \<and> js ''https://calls.example.com/call-status?clientName=Jane&phoneNumber=%2B15551234567''
        \<noteq> getServerBaseUrl example_env @ js ''/call-status?clientName=Jane&phoneNumber=(555)%20123-4567''
   \<and> js ''https://calls.example.com/call-status?clientName=Jane&phoneNumber=%2B15551234567''
        \<noteq> getServerBaseUrl example_env @ js ''/call-status?clientName=Jane&phoneNumber=(555) 123-4567''"
proof -
  have e: "encodeURIComponent (Str (js ''(555) 123-4567'')) = Inr (js ''(555)%20123-4567'')"
    by (simp add: encode_defs)
  have q: "query initiate_request ''phoneNumber'' = Str (js ''(555) 123-4567'')"
    by (simp add: initiate_request_def)
  have d: "js ''https://calls.example.com/call-status?clientName=Jane&phoneNumber=%2B15551234567''
        \<noteq> getServerBaseUrl example_env @ js ''/call-status?clientName=Jane&phoneNumber=(555)%20123-4567''"
     "js ''https://calls.example.com/call-status?clientName=Jane&phoneNumber=%2B15551234567''
        \<noteq> getServerBaseUrl example_env @ js ''/call-status?clientName=Jane&phoneNumber=(555) 123-4567''"
    by (simp_all add: base_url) (simp_all add: js_def)
  from e q d show ?thesis
    by (simp add: handleCall_accepting)
qed

section \<open>The CRM functions are not reachable\<close>

lemma tagging_webhook_not_crm: "\<not> startsWith (tagging_webhook @ rest) GHL_API_URL"
  by (simp add: startsWith_def tagging_webhook_def GHL_API_URL_def js_def)

lemma tagUrl_not_crm: "\<not> startsWith (tagUrl n k t) GHL_API_URL"
  unfolding tagUrl_def by (rule tagging_webhook_not_crm)

lemma ultravox_not_crm: "\<not> startsWith ultravox_calls GHL_API_URL"
  by (simp add: startsWith_def ultravox_calls_def GHL_API_URL_def js_def)

lemma tagUrl_tagging: "startsWith (tagUrl n k t) tagging_webhook"
  by (simp add: startsWith_def tagUrl_def)

lemma sendSMS_no_crm:
  "list_all (\<lambda>eff. \<not> crm_api_request eff) (fst (sendSMS e w phoneNumber msg))"
  by (simp add: sendSMS_def sendSMS_try_def Let_def split: sum.splits)

lemma sendSMS_no_crm_effs:
  "sendSMS e w phoneNumber msg = (effs, r) \<Longrightarrow> list_all (\<lambda>eff. \<not> crm_api_request eff) effs"
  using sendSMS_no_crm [of e w phoneNumber msg] by simp

lemma sms_webhook_no_crm:
  "list_all (\<lambda>eff. \<not> crm_api_request eff) (fst (sms_webhook e w req))"
  by (auto simp add: sms_webhook_def Let_def split: prod.splits sum.splits
        dest: sendSMS_no_crm_effs)

lemma send_sms_no_crm:
  "list_all (\<lambda>eff. \<not> crm_api_request eff) (fst (send_sms e w req))"
  by (auto simp add: send_sms_def Let_def split: prod.splits sum.splits
        dest: sendSMS_no_crm_effs)

lemma tag_contact_effects:
  "list_all (\<lambda>eff. \<not> crm_api_request eff) (fst (tag_contact w tagLiteral clientName phoneNumber to))
   \<and> list_all (\<lambda>(m, url). m = GET \<and> startsWith url tagging_webhook)
        (fetches (fst (tag_contact w tagLiteral clientName phoneNumber to)))"
  by (simp add: tag_contact_def Let_def tagUrl_not_crm tagUrl_tagging split: sum.splits)

lemma tag_and_log_effects:
  "list_all (\<lambda>eff. \<not> crm_api_request eff) (tag_and_log w tagLiteral label clientName phoneNumber to)
   \<and> list_all (\<lambda>(m, url). m = GET \<and> startsWith url tagging_webhook)
        (fetches (tag_and_log w tagLiteral label clientName phoneNumber to))"
  using tag_contact_effects [of w tagLiteral clientName phoneNumber to]
  by (auto simp add: tag_and_log_def fetches_append split: prod.splits sum.splits)

lemma call_status_effects:
  "list_all (\<lambda>eff. \<not> crm_api_request eff) (fst (call_status w req))
   \<and> list_all (\<lambda>(m, url). m = GET \<and> startsWith url tagging_webhook) (fetches (fst (call_status w req)))"
  by (simp add: call_status_def Let_def tag_and_log_effects split: sum.splits)

lemma createUltravoxCall_no_crm:
  "list_all (\<lambda>eff. \<not> crm_api_request eff) (fst (createUltravoxCall w c p u))"
  by (simp add: createUltravoxCall_def createUltravoxCall_try_def ultravox_not_crm split: sum.splits)

lemma initiateCall_no_crm:
  "list_all (\<lambda>eff. \<not> crm_api_request eff) (fst (initiateCall e w c p u))"
proof -
  obtain effs r where cu: "createUltravoxCall w c p u = (effs, r)"
    by (cases "createUltravoxCall w c p u")
  then have "list_all (\<lambda>eff. \<not> crm_api_request eff) effs"
    using createUltravoxCall_no_crm [of w c p u] by simp
  then show ?thesis
    by (simp add: initiateCall_def initiateCall_try_def cu Let_def split: sum.splits)
qed

lemma initiateCall_no_crm_effs:
  "initiateCall e w c p u = (effs, r) \<Longrightarrow> list_all (\<lambda>eff. \<not> crm_api_request eff) effs"
  using initiateCall_no_crm [of e w c p u] by simp

lemma handleCall_no_crm:
  "list_all (\<lambda>eff. \<not> crm_api_request eff) (fst (handleCall e w req))"
  by (auto simp add: handleCall_def handleCall_try_def Let_def split: prod.splits sum.splits
        dest: initiateCall_no_crm_effs)

lemma sendSMS_tool_fetches:
  "fetches (fst (sendSMS_tool e w (Obj props)))
     = [(POST, getServerBaseUrl e @ js ''/api/sms-webhook'')]"
  by (simp add: sendSMS_tool_def sendSMS_tool_try_def Let_def fetches_append split: sum.splits)

lemma sendSMS_tool_fetches_any:
  "fetches (fst (sendSMS_tool e w parameters)) = []
   \<or> fetches (fst (sendSMS_tool e w parameters))
       = [(POST, getServerBaseUrl e @ js ''/api/sms-webhook'')]"
  by (simp add: sendSMS_tool_def sendSMS_tool_try_def Let_def fetches_append split: sum.splits)

lemma findOrCreateContact_crm:
  assumes "ToString phoneNumber = Inr phone"
  shows "list_ex crm_api_request (fst (findOrCreateContact w phoneNumber))"
proof -
  have s: "startsWith (GHL_API_URL @ rest) GHL_API_URL" for rest
    by (simp add: startsWith_def)
  obtain effs r where f: "findOrCreateContact_try w phoneNumber = (effs, r)"
    by (cases "findOrCreateContact_try w phoneNumber")
  with assms have "list_ex crm_api_request effs"
    by (auto simp add: findOrCreateContact_try_def Let_def s
          split: sum.splits jsval.splits list.splits if_splits)
  then show ?thesis
    by (auto simp add: findOrCreateContact_def f split: sum.splits)
qed

lemma addTagToContact_crm:
  assumes "ToString contactId = Inr contact"
  shows "list_ex crm_api_request (fst (addTagToContact w contactId tag))"
proof -
  have s: "startsWith (GHL_API_URL @ rest) GHL_API_URL" for rest
    by (simp add: startsWith_def)
  from assms show ?thesis
    by (simp add: addTagToContact_def addTagToContact_try_def Let_def s split: sum.splits)
qed

text \<open>
  C10. No route of the application makes a request to the CRM's REST API, whatever the
  request and whatever the outside answers, whereas \<open>findOrCreateContact\<close> and
  \<open>addTagToContact\<close> make one whenever their argument converts to a string (as every
  string, \<open>null\<close> and \<open>undefined\<close> does): no handler calls them. Every request the
  status callback makes is a \<open>GET\<close> to the tagging webhook, and the only request of the
  \<open>sendSMS\<close> tool's implementation is a \<open>POST\<close> to this server's own
  \<open>/api/sms-webhook\<close> (which it makes whenever it is called with an object).
\<close>

theorem crm_functions_unreachable:
  "list_all (\<lambda>eff. \<not> crm_api_request eff) (fst (serve e w r req))
   \<and> list_all (\<lambda>(m, url). m = GET \<and> startsWith url tagging_webhook)
       (fetches (fst (serve e w CallStatus req)))
   \<and> fetches (fst (sendSMS_tool e w (Obj props)))
        = [(POST, getServerBaseUrl e @ js ''/api/sms-webhook'')]
   \<and> (fetches (fst (sendSMS_tool e w parameters)) = []
        \<or> fetches (fst (sendSMS_tool e w parameters))
            = [(POST, getServerBaseUrl e @ js ''/api/sms-webhook'')])
   \<and> (\<forall>phone. ToString phoneNumber = Inr phone \<longrightarrow>
         list_ex crm_api_request (fst (findOrCreateContact w phoneNumber)))
   \<and> (\<forall>contact. ToString contactId = Inr contact \<longrightarrow>
         list_ex crm_api_request (fst (addTagToContact w contactId tag)))
   \<and> list_ex crm_api_request (fst (findOrCreateContact w (Str number)))
   \<and> list_ex crm_api_request (fst (findOrCreateContact w Null))
   \<and> list_ex crm_api_request (fst (findOrCreateContact w Undefined))
   \<and> list_ex crm_api_request (fst (addTagToContact w (Str number) tag))
   \<and> list_ex crm_api_request (fst (addTagToContact w Null tag))
   \<and> list_ex crm_api_request (fst (addTagToContact w Undefined tag))"
proof -
  have "list_all (\<lambda>eff. \<not> crm_api_request eff) (fst (serve e w r req))"
    by (cases r)
       (simp_all add: replied_def sms_webhook_no_crm call_status_effects send_sms_no_crm
          handleCall_no_crm health_def)
  then show ?thesis
    using sendSMS_tool_fetches_any [of e w parameters]
    by (simp add: call_status_effects sendSMS_tool_fetches findOrCreateContact_crm addTagToContact_crm)
qed

text \<open>The busy callback of the specification, and the two CRM functions on Jane's number.\<close>

theorem crm_functions_unreachable_witness:
  "ToString (Str (js ''5551234567'')) = Inr (js ''5551234567'')
   \<and> list_ex crm_api_request (fst (findOrCreateContact accepting_world (Str (js ''5551234567''))))
   \<and> list_ex crm_api_request
        (fst (addTagToContact accepting_world (Str (js ''5551234567'')) (Str (js ''call-busy''))))
   \<and> list_all (\<lambda>eff. \<not> crm_api_request eff)
        (fst (serve example_env accepting_world CallStatus busy_request))"
proof -
  have t: "ToString (Str (js ''5551234567'')) = Inr (js ''5551234567'')"
    by simp
  from crm_functions_unreachable [where e = example_env and w = accepting_world
    and r = CallStatus and req = busy_request and phoneNumber = "Str (js ''5551234567'')"
    and contactId = "Str (js ''5551234567'')" and tag = "Str (js ''call-busy'')"] t
  show ?thesis by blast
qed

end
